theory Spec2Isabelle
  imports Main
begin

section \<open>JavaScript values\<close>

text \<open>
  The hook \<^verbatim>\<open>useTownPassAuth\<close> (src/hooks/useTownPassAuth.ts) receives values of type
  \<^verbatim>\<open>any\<close> from its host. They are modelled by the JSON values together with
  \<^verbatim>\<open>undefined\<close>. Numbers are integers here: the code only tests them for truthiness.
  An object is an association list; a lookup takes the first binding of a key.
\<close>

datatype jsval =
    VUndefined
  | VNull
  | VBool bool
  | VNum int
  | VStr string
  | VArr "jsval list"
  | VObj "(string \<times> jsval) list"

text \<open>A thrown exception. Reading a property of \<^verbatim>\<open>null\<close> or \<^verbatim>\<open>undefined\<close> is the only
  throw site of the normalizer.\<close>

datatype err = TypeError

fun truthy :: "jsval \<Rightarrow> bool" where
  "truthy VUndefined = False"
| "truthy VNull = False"
| "truthy (VBool b) = b"
| "truthy (VNum n) = (n \<noteq> 0)"
| "truthy (VStr s) = (s \<noteq> [])"
| "truthy (VArr xs) = True"
| "truthy (VObj kvs) = True"

fun nullish :: "jsval \<Rightarrow> bool" where
  "nullish VUndefined = True"
| "nullish VNull = True"
| "nullish v = False"

fun typeof :: "jsval \<Rightarrow> string" where
  "typeof VUndefined = ''undefined''"
| "typeof VNull = ''object''"
| "typeof (VBool b) = ''boolean''"
| "typeof (VNum n) = ''number''"
| "typeof (VStr s) = ''string''"
| "typeof (VArr xs) = ''object''"
| "typeof (VObj kvs) = ''object''"

text \<open>\<^verbatim>\<open>v[k]\<close> on a value that is neither null nor undefined. The code reads only the keys
  source, type, payload, user, townpass_user, id, name, data and detail, none of which is a
  built-in property of a string, number, boolean or array.\<close>

fun field :: "jsval \<Rightarrow> string \<Rightarrow> jsval" where
  "field (VObj kvs) k = (case map_of kvs k of Some v \<Rightarrow> v | None \<Rightarrow> VUndefined)"
| "field v k = VUndefined"

text \<open>\<^verbatim>\<open>v.k\<close>: throws on null and undefined.\<close>

definition getp :: "jsval \<Rightarrow> string \<Rightarrow> err + jsval" where
  "getp v k = (if nullish v then Inl TypeError else Inr (field v k))"

text \<open>\<^verbatim>\<open>v?.k\<close>: undefined on null and undefined.\<close>

definition optp :: "jsval \<Rightarrow> string \<Rightarrow> jsval" where
  "optp v k = (if nullish v then VUndefined else field v k)"

text \<open>\<^verbatim>\<open>a ?? b\<close>\<close>

definition nc :: "jsval \<Rightarrow> jsval \<Rightarrow> jsval" where
  "nc a b = (if nullish a then b else a)"

text \<open>Sequencing of computations that may throw, and the short-circuit \<^verbatim>\<open>&&\<close> and \<^verbatim>\<open>||\<close> on
  conditions whose right operand may throw.\<close>

definition bindE :: "err + 'a \<Rightarrow> ('a \<Rightarrow> err + 'b) \<Rightarrow> err + 'b" where
  "bindE m f = (case m of Inl e \<Rightarrow> Inl e | Inr x \<Rightarrow> f x)"

definition andE :: "bool \<Rightarrow> err + bool \<Rightarrow> err + bool" where
  "andE a b = (if a then b else Inr False)"

definition orE :: "err + bool \<Rightarrow> err + bool \<Rightarrow> err + bool" where
  "orE a b = bindE a (\<lambda>x. if x then Inr True else b)"

definition truthyE :: "err + jsval \<Rightarrow> err + bool" where
  "truthyE m = bindE m (\<lambda>v. Inr (truthy v))"

section \<open>The payload normalizer\<close>

text \<open>\<^verbatim>\<open>JSON.parse\<close> belongs to the JavaScript runtime, not to the repository. It is a
  parameter of the model: \<open>None\<close> when the text is not JSON (the call throws).\<close>

type_synonym json_parse = "string \<Rightarrow> jsval option"

text \<open>\<^verbatim>\<open>tryParse\<close>, lines 94-100.\<close>

definition tryParse :: "json_parse \<Rightarrow> string \<Rightarrow> jsval" where
  "tryParse jp s = (case jp s of Some v \<Rightarrow> v | None \<Rightarrow> VNull)"

text \<open>Lines 47-51: a string is decoded once; the decoded value replaces it unless it is
  null.\<close>

definition decode :: "json_parse \<Rightarrow> jsval \<Rightarrow> jsval" where
  "decode jp raw =
     (case raw of
        VStr s \<Rightarrow> (let maybe = tryParse jp s in if maybe \<noteq> VNull then maybe else raw)
      | _ \<Rightarrow> raw)"

text \<open>Line 69: \<^verbatim>\<open>payload?.user && typeof payload.user === "object" && payload.user.id\<close>\<close>

definition cond_user :: "jsval \<Rightarrow> err + bool" where
  "cond_user payload =
     andE (truthy (optp payload ''user''))
       (bindE (getp payload ''user'') (\<lambda>u.
          andE (typeof u = ''object'')
            (truthyE (bindE (getp payload ''user'') (\<lambda>u'. getp u' ''id'')))))"

text \<open>Lines 72-79: the \<^verbatim>\<open>userinfo\<close> reply. \<open>Some v\<close> is \<^verbatim>\<open>return v\<close>; \<open>None\<close> is falling
  through to the next shape, which happens when \<^verbatim>\<open>data\<close> is neither a string nor of type
  object.\<close>

definition reply_userinfo :: "json_parse \<Rightarrow> jsval \<Rightarrow> err + jsval option" where
  "reply_userinfo jp payload =
     (if optp payload ''name'' = VStr ''userinfo''
      then bindE (getp payload ''data'') (\<lambda>d.
             case d of
               VStr ds \<Rightarrow> Inr (Some (nc (tryParse jp ds) VNull))
             | _ \<Rightarrow> if typeof d = ''object'' then Inr (Some d) else Inr None)
      else Inr None)"

text \<open>Line 82: \<^verbatim>\<open>payload?.detail && (payload.detail.user || payload.detail.townpass_user)\<close>\<close>

definition cond_detail :: "jsval \<Rightarrow> err + bool" where
  "cond_detail payload =
     andE (truthy (optp payload ''detail''))
       (orE (truthyE (bindE (getp payload ''detail'') (\<lambda>d. getp d ''user'')))
            (truthyE (bindE (getp payload ''detail'') (\<lambda>d. getp d ''townpass_user''))))"

text \<open>Line 83: \<^verbatim>\<open>payload.detail.user ?? payload.detail.townpass_user\<close>\<close>

definition ret_detail :: "jsval \<Rightarrow> err + jsval" where
  "ret_detail payload =
     bindE (bindE (getp payload ''detail'') (\<lambda>d. getp d ''user'')) (\<lambda>a.
       if \<not> nullish a then Inr a
       else bindE (getp payload ''detail'') (\<lambda>d. getp d ''townpass_user''))"

text \<open>Line 87: \<^verbatim>\<open>typeof payload === "object" && payload.id\<close>\<close>

definition cond_bare :: "jsval \<Rightarrow> err + bool" where
  "cond_bare payload = andE (typeof payload = ''object'') (truthyE (getp payload ''id''))"

text \<open>\<^verbatim>\<open>parseIncoming\<close>, lines 43-92, branch by branch in the order of the source.\<close>

definition parseIncoming :: "json_parse \<Rightarrow> jsval \<Rightarrow> err + jsval" where
  "parseIncoming jp raw =
    (if \<not> truthy raw then Inr VNull
     else
      let payload = decode jp raw in
      if optp payload ''source'' = VStr ''townpass'' \<and>
         (optp payload ''type'' = VStr ''user'' \<or> optp payload ''type'' = VStr ''user_info'')
      then bindE (getp payload ''payload'') (\<lambda>a.
             if \<not> nullish a then Inr a
             else bindE (getp payload ''user'') (\<lambda>b. Inr (nc b VNull)))
      else if optp payload ''type'' = VStr ''townpass:user'' \<and> truthy (optp payload ''user'')
      then getp payload ''user''
      else if (optp payload ''type'' = VStr ''TOWNPASS_USER'' \<or>
               optp payload ''type'' = VStr ''TOWNPASS_USER_INFO'') \<and>
              truthy (optp payload ''user'')
      then getp payload ''user''
      else if truthy (optp payload ''townpass_user'')
      then getp payload ''townpass_user''
      else
       bindE (cond_user payload) (\<lambda>c5.
        if c5 then getp payload ''user''
        else
         bindE (reply_userinfo jp payload) (\<lambda>r6.
          case r6 of
            Some v \<Rightarrow> Inr v
          | None \<Rightarrow>
             bindE (cond_detail payload) (\<lambda>c7.
              if c7 then ret_detail payload
              else bindE (cond_bare payload) (\<lambda>c8.
                     if c8 then Inr payload else Inr VNull)))))"

section \<open>Envelope shapes\<close>

text \<open>
  The five envelope shapes that the specification names, each with its test and with the
  value it carries. Within the tagged shape and within the nested shape the variants stand
  in the order of the source.
\<close>

datatype shape = Tagged | Nested | CommandReply | BareIdentity | EventDetail

fun matches :: "shape \<Rightarrow> jsval \<Rightarrow> bool" where
  "matches Tagged p =
     (if optp p ''source'' = VStr ''townpass'' \<and>
         (optp p ''type'' = VStr ''user'' \<or> optp p ''type'' = VStr ''user_info'') then True
      else if optp p ''type'' = VStr ''townpass:user'' \<or>
              optp p ''type'' = VStr ''TOWNPASS_USER'' \<or>
              optp p ''type'' = VStr ''TOWNPASS_USER_INFO''
      then truthy (optp p ''user'') else False)"
| "matches Nested p =
     (if truthy (optp p ''townpass_user'') then True
      else truthy (optp p ''user'') \<and> typeof (optp p ''user'') = ''object'' \<and>
           truthy (optp (optp p ''user'') ''id''))"
| "matches CommandReply p =
     (optp p ''name'' = VStr ''userinfo'' \<and>
      (typeof (optp p ''data'') = ''string'' \<or> typeof (optp p ''data'') = ''object''))"
| "matches BareIdentity p = (typeof p = ''object'' \<and> truthy (optp p ''id''))"
| "matches EventDetail p =
     (truthy (optp p ''detail'') \<and>
      (truthy (optp (optp p ''detail'') ''user'') \<or>
       truthy (optp (optp p ''detail'') ''townpass_user'')))"

fun carried :: "json_parse \<Rightarrow> shape \<Rightarrow> jsval \<Rightarrow> jsval" where
  "carried jp Tagged p =
     (if optp p ''source'' = VStr ''townpass'' \<and>
         (optp p ''type'' = VStr ''user'' \<or> optp p ''type'' = VStr ''user_info'')
      then nc (optp p ''payload'') (nc (optp p ''user'') VNull)
      else optp p ''user'')"
| "carried jp Nested p =
     (if truthy (optp p ''townpass_user'') then optp p ''townpass_user'' else optp p ''user'')"
| "carried jp CommandReply p =
     (case optp p ''data'' of VStr ds \<Rightarrow> nc (tryParse jp ds) VNull | d \<Rightarrow> d)"
| "carried jp BareIdentity p = p"
| "carried jp EventDetail p =
     nc (optp (optp p ''detail'') ''user'') (optp (optp p ''detail'') ''townpass_user'')"

text \<open>The shapes tried in a given order: the first one that matches decides.\<close>

fun first_match :: "json_parse \<Rightarrow> shape list \<Rightarrow> jsval \<Rightarrow> jsval" where
  "first_match jp [] p = VNull"
| "first_match jp (sh # shs) p =
     (if matches sh p then carried jp sh p else first_match jp shs p)"

text \<open>The order as the specification lists it, and the order of the branches in the
  source, where the event wrapper (line 82) is tested before the bare object (line 87).\<close>

definition listed_order :: "shape list" where
  "listed_order = [Tagged, Nested, CommandReply, BareIdentity, EventDetail]"

definition source_order :: "shape list" where
  "source_order = [Tagged, Nested, CommandReply, EventDetail, BareIdentity]"

text \<open>What \<^verbatim>\<open>JSON.parse\<close> does on the texts used in the examples below; every other text
  counts as malformed here.\<close>

definition sample_json :: json_parse where
  "sample_json s =
     (if s = ''{\"id\":\"u1\",\"name\":\"Ada\"}''
      then Some (VObj [(''id'', VStr ''u1''), (''name'', VStr ''Ada'')])
      else if s = ''{\"name\":\"userid\",\"data\":\"u2\"}''
      then Some (VObj [(''name'', VStr ''userid''), (''data'', VStr ''u2'')])
      else if s = ''\"text\"'' then Some (VStr ''text'')
      else None)"

section \<open>The hook state and the host window\<close>

text \<open>
  Each call of \<^verbatim>\<open>requestTownPassUser\<close> creates fresh closures. A handler is identified by its
  kind and by the number of the call that created it; \<open>HostHandler\<close> is a function that the
  host installed itself.
\<close>

datatype handler =
    GenericListener nat
  | CustomListener nat
  | CallbackFn nat
  | FlutterHandler nat
  | ChannelHandler nat
  | HostHandler nat

text \<open>The global \<^verbatim>\<open>window.__onTownPassUser\<close>.\<close>

datatype slot = Absent | HostFunction nat | EngineCallback nat | NonFunction jsval

text \<open>A host bridge object (\<^verbatim>\<open>flutterObject\<close>, \<^verbatim>\<open>townpass_message_channel\<close>): which methods it
  has, the handlers registered through \<^verbatim>\<open>addEventListener\<close>, and its \<^verbatim>\<open>onmessage\<close> property.\<close>

record bridge =
  addEventListenerFn :: bool
  removeEventListenerFn :: bool
  postMessageFn :: bool
  registered :: "handler list"
  onmessage :: "handler option"

text \<open>\<^verbatim>\<open>webkit.messageHandlers.TownPass.postMessage\<close>, which may throw.\<close>

datatype webkit = WebkitAccepts | WebkitRejectsObject

text \<open>\<^verbatim>\<open>window.TownPass\<close>: whether \<^verbatim>\<open>postMessage\<close> is a function, and what \<^verbatim>\<open>getUser\<close> does.\<close>

datatype getUser = NoGetUser | GetUserReturns jsval | GetUserThrows

record townpass_object =
  tpPostMessageFn :: bool
  tpGetUser :: getUser

datatype channel =
    WindowMessage
  | WindowCustomEvent
  | GlobalCallback
  | FlutterObject
  | TownpassMessageChannel
  | WebkitHandler
  | ReactNativeWebView
  | TownPassBridge
  | WindowBroadcast
  | TownPassGetUser

text \<open>What is handed to the host: \<open>Stringified v\<close> is \<^verbatim>\<open>JSON.stringify(v)\<close>, \<open>Plain v\<close> the value
  itself, \<open>Call\<close> a call without arguments.\<close>

datatype sent = Stringified jsval | Plain jsval | Call

text \<open>The request made by \<^verbatim>\<open>fetch\<close>, lines 369-374.\<close>

record fetch_call =
  url :: string
  http_method :: string
  content_type :: string
  credentials :: string
  body :: sent

text \<open>Every effect that a test double of the host can observe, in the order of occurrence.\<close>

datatype event =
    StateUser jsval
  | StateLoading bool
  | StateError "string option"
  | StateAuthenticated bool
  | Attach channel handler
  | Detach channel handler
  | SetTimeout nat nat
  | ClearTimeout nat
  | Send channel sent
  | Fetch fetch_call

record world =
  \<comment> \<open>\<^verbatim>\<open>useState\<close>, lines 29-32\<close>
  user :: jsval
  isLoading :: bool
  error :: "string option"
  isAuthenticated :: bool
  \<comment> \<open>\<^verbatim>\<open>useRef\<close>, lines 34-37\<close>
  timerRef :: "nat option"
  listenerRef :: "handler option"
  channelListenerRef :: "handler option"
  cleanedRef :: bool
  \<comment> \<open>the window\<close>
  messageListeners :: "handler list"
  customListeners :: "handler list"
  onTownPassUser :: slot
  flutterObject :: "bridge option"
  townpass_message_channel :: "bridge option"
  webkitTownPass :: "webkit option"
  reactNativeWebView :: bool
  townPass :: "townpass_object option"
  timers :: "nat list"
  timerCount :: nat
  \<comment> \<open>the number of calls of \<^verbatim>\<open>requestTownPassUser\<close> so far, and the observed effects\<close>
  requests :: nat
  trace :: "event list"

definition emit :: "event \<Rightarrow> world \<Rightarrow> world" where
  "emit e s = s\<lparr>trace := trace s @ [e]\<rparr>"

definition setUser :: "jsval \<Rightarrow> world \<Rightarrow> world" where
  "setUser v s = emit (StateUser v) (s\<lparr>user := v\<rparr>)"

definition setIsLoading :: "bool \<Rightarrow> world \<Rightarrow> world" where
  "setIsLoading b s = emit (StateLoading b) (s\<lparr>isLoading := b\<rparr>)"

definition setError :: "string option \<Rightarrow> world \<Rightarrow> world" where
  "setError e s = emit (StateError e) (s\<lparr>error := e\<rparr>)"

definition setIsAuthenticated :: "bool \<Rightarrow> world \<Rightarrow> world" where
  "setIsAuthenticated b s = emit (StateAuthenticated b) (s\<lparr>isAuthenticated := b\<rparr>)"

text \<open>\<^verbatim>\<open>window.setTimeout\<close> hands out positive identifiers; \<^verbatim>\<open>window.clearTimeout\<close>.\<close>

definition setTimeout :: "nat \<Rightarrow> world \<Rightarrow> nat \<times> world" where
  "setTimeout ms s =
     (let t = Suc (timerCount s)
      in (t, emit (SetTimeout t ms) (s\<lparr>timers := timers s @ [t], timerCount := t\<rparr>)))"

definition clearTimeout :: "nat \<Rightarrow> world \<Rightarrow> world" where
  "clearTimeout t s = emit (ClearTimeout t) (s\<lparr>timers := removeAll t (timers s)\<rparr>)"

section \<open>Teardown\<close>

text \<open>\<^verbatim>\<open>cleanup\<close>, lines 102-143, in four steps: the timer (105-108), the window message
  listener (111-114), the handler kept in \<^verbatim>\<open>channelListenerRef\<close> (117-132), the global
  callback (135-142).\<close>

definition cleanup_timer :: "world \<Rightarrow> world" where
  "cleanup_timer s =
     (case timerRef s of
        Some t \<Rightarrow> if t \<noteq> 0 then (clearTimeout t s)\<lparr>timerRef := None\<rparr> else s
      | None \<Rightarrow> s)"

definition cleanup_message :: "world \<Rightarrow> world" where
  "cleanup_message s =
     (case listenerRef s of
        Some h \<Rightarrow>
          (emit (Detach WindowMessage h)
             (s\<lparr>messageListeners := removeAll h (messageListeners s)\<rparr>))\<lparr>listenerRef := None\<rparr>
      | None \<Rightarrow> s)"

definition cleanup_channel :: "world \<Rightarrow> world" where
  "cleanup_channel s =
     (case channelListenerRef s of
        Some h \<Rightarrow>
          (case townpass_message_channel s of
             Some ch \<Rightarrow>
               if removeEventListenerFn ch
               then emit (Detach TownpassMessageChannel h)
                      (s\<lparr>townpass_message_channel :=
                            Some (ch\<lparr>registered := removeAll h (registered ch)\<rparr>)\<rparr>)
               else if onmessage ch = Some h
               then emit (Detach TownpassMessageChannel h)
                      (s\<lparr>townpass_message_channel := Some (ch\<lparr>onmessage := None\<rparr>)\<rparr>)
               else s
           | None \<Rightarrow> s)
      | None \<Rightarrow> s)\<lparr>channelListenerRef := None\<rparr>"

definition cleanup_callback :: "world \<Rightarrow> world" where
  "cleanup_callback s =
     (case onTownPassUser s of
        HostFunction h \<Rightarrow> emit (Detach GlobalCallback (HostHandler h)) (s\<lparr>onTownPassUser := Absent\<rparr>)
      | EngineCallback n \<Rightarrow> emit (Detach GlobalCallback (CallbackFn n)) (s\<lparr>onTownPassUser := Absent\<rparr>)
      | _ \<Rightarrow> s)"

definition cleanup :: "world \<Rightarrow> world" where
  "cleanup s =
     cleanup_callback (cleanup_channel (cleanup_message (cleanup_timer (s\<lparr>cleanedRef := True\<rparr>))))"

text \<open>\<^verbatim>\<open>handleIncomingRaw\<close>, lines 145-155. An exception of the normalizer would leave the
  function before any setter is called.\<close>

definition handleIncomingRaw :: "json_parse \<Rightarrow> jsval \<Rightarrow> world \<Rightarrow> world \<times> bool" where
  "handleIncomingRaw jp raw s =
     (case parseIncoming jp raw of
        Inl e \<Rightarrow> (s, False)
      | Inr parsed \<Rightarrow>
          if truthy parsed
          then (setError None (setIsLoading False (setUser parsed s)), True)
          else (s, False))"

text \<open>\<^verbatim>\<open>const ok = handleIncomingRaw(x); if (ok) cleanup();\<close>, the body shared by all
  listeners.\<close>

definition handle_then_cleanup :: "json_parse \<Rightarrow> jsval \<Rightarrow> world \<Rightarrow> world" where
  "handle_then_cleanup jp raw s =
     (case handleIncomingRaw jp raw s of (s', ok) \<Rightarrow> if ok then cleanup s' else s')"

section \<open>The listeners\<close>

text \<open>\<^verbatim>\<open>flutterHandler\<close>, lines 199-227.\<close>

definition flutterHandler :: "json_parse \<Rightarrow> jsval \<Rightarrow> world \<Rightarrow> world" where
  "flutterHandler jp ev s =
     (let data0 = nc (optp ev ''data'') ev;
          data = (case data0 of
                    VStr str \<Rightarrow> (case jp str of Some v \<Rightarrow> v | None \<Rightarrow> data0)
                  | _ \<Rightarrow> data0)
      in if optp data ''name'' = VStr ''userinfo'' \<and> truthy (optp data ''data'')
         then handle_then_cleanup jp (field data ''data'') s
         else if optp data ''name'' = VStr ''userid'' \<and> truthy (optp data ''data'')
         then handle_then_cleanup jp (VObj [(''id'', field data ''data'')]) s
         else s)"

text \<open>\<^verbatim>\<open>channelHandler\<close>, lines 243-252.\<close>

definition channelHandler :: "json_parse \<Rightarrow> jsval \<Rightarrow> world \<Rightarrow> world" where
  "channelHandler jp ev s =
     (let data = nc (optp ev ''data'') ev;
          parsed = (case data of VStr str \<Rightarrow> nc (tryParse jp str) data | _ \<Rightarrow> data)
      in handle_then_cleanup jp parsed s)"

text \<open>Calling a handler with an event or payload: \<^verbatim>\<open>genericListener\<close> (168-175) reads
  \<^verbatim>\<open>ev.data\<close>, \<^verbatim>\<open>customListener\<close> (180-184) reads \<^verbatim>\<open>ev.detail\<close>, the global callback (189-193)
  takes the payload itself. A function of the host does not touch the hook.\<close>

fun invoke :: "json_parse \<Rightarrow> handler \<Rightarrow> jsval \<Rightarrow> world \<Rightarrow> world" where
  "invoke jp (GenericListener n) ev s = handle_then_cleanup jp (field ev ''data'') s"
| "invoke jp (CustomListener n) ev s = handle_then_cleanup jp (field ev ''detail'') s"
| "invoke jp (CallbackFn n) ev s = handle_then_cleanup jp ev s"
| "invoke jp (FlutterHandler n) ev s = flutterHandler jp ev s"
| "invoke jp (ChannelHandler n) ev s = channelHandler jp ev s"
| "invoke jp (HostHandler h) ev s = s"

section \<open>Starting a request\<close>

text \<open>Lines 159-162.\<close>

definition request_reset :: "world \<Rightarrow> world" where
  "request_reset s = setUser VNull (setError None (setIsLoading True (s\<lparr>cleanedRef := False\<rparr>)))"

text \<open>Lines 168-185: the window listeners for \<^verbatim>\<open>message\<close> and \<^verbatim>\<open>townpass:user\<close>. Only the first
  is kept in a ref.\<close>

definition attach_window :: "nat \<Rightarrow> world \<Rightarrow> world" where
  "attach_window n s =
     (let s1 = s\<lparr>listenerRef := Some (GenericListener n)\<rparr>;
          s2 = emit (Attach WindowMessage (GenericListener n))
                 (s1\<lparr>messageListeners := messageListeners s1 @ [GenericListener n]\<rparr>)
      in emit (Attach WindowCustomEvent (CustomListener n))
           (s2\<lparr>customListeners := customListeners s2 @ [CustomListener n]\<rparr>))"

text \<open>Lines 188-193: the assignment to \<^verbatim>\<open>win.__onTownPassUser\<close>.\<close>

definition attach_callback :: "nat \<Rightarrow> world \<Rightarrow> world" where
  "attach_callback n s =
     emit (Attach GlobalCallback (CallbackFn n)) (s\<lparr>onTownPassUser := EngineCallback n\<rparr>)"

text \<open>A bridge takes a handler through \<^verbatim>\<open>addEventListener\<close> when it has that method, and
  otherwise through its \<^verbatim>\<open>onmessage\<close> property (lines 229-233 and 253-258).\<close>

definition subscribe :: "handler \<Rightarrow> bridge \<Rightarrow> bridge" where
  "subscribe h b =
     (if addEventListenerFn b then b\<lparr>registered := registered b @ [h]\<rparr>
      else b\<lparr>onmessage := Some h\<rparr>)"

text \<open>Lines 196-237.\<close>

definition attach_flutter :: "nat \<Rightarrow> world \<Rightarrow> world" where
  "attach_flutter n s =
     (case flutterObject s of
        Some fo \<Rightarrow>
          emit (Attach FlutterObject (FlutterHandler n))
            (s\<lparr>channelListenerRef := Some (FlutterHandler n),
               flutterObject := Some (subscribe (FlutterHandler n) fo)\<rparr>)
      | None \<Rightarrow> s)"

text \<open>Lines 240-262. The handler is not kept in any ref.\<close>

definition attach_channel :: "nat \<Rightarrow> world \<Rightarrow> world" where
  "attach_channel n s =
     (case townpass_message_channel s of
        Some ch \<Rightarrow>
          emit (Attach TownpassMessageChannel (ChannelHandler n))
            (s\<lparr>townpass_message_channel := Some (subscribe (ChannelHandler n) ch)\<rparr>)
      | None \<Rightarrow> s)"

text \<open>Lines 265-270.\<close>

definition arm_timeout :: "nat \<Rightarrow> world \<Rightarrow> world" where
  "arm_timeout ms s = (case setTimeout ms s of (t, s') \<Rightarrow> s'\<lparr>timerRef := Some t\<rparr>)"

text \<open>Lines 273-284.\<close>

definition probe_flutter :: "world \<Rightarrow> world" where
  "probe_flutter s =
     (case flutterObject s of
        Some fo \<Rightarrow>
          if postMessageFn fo
          then emit (Send FlutterObject
                       (Stringified (VObj [(''name'', VStr ''userinfo''), (''data'', VNull)]))) s
          else s
      | None \<Rightarrow> s)"

text \<open>Lines 287-298.\<close>

definition probe_channel :: "world \<Rightarrow> world" where
  "probe_channel s =
     (case townpass_message_channel s of
        Some ch \<Rightarrow>
          if postMessageFn ch
          then emit (Send TownpassMessageChannel
                       (Stringified (VObj [(''name'', VStr ''userid''), (''data'', VNull)]))) s
          else s
      | None \<Rightarrow> s)"

text \<open>Lines 301-318: the object form first, the string form when the object form throws.\<close>

definition probe_webkit :: "world \<Rightarrow> world" where
  "probe_webkit s =
     (case webkitTownPass s of
        Some WebkitAccepts \<Rightarrow>
          emit (Send WebkitHandler (Plain (VObj [(''action'', VStr ''getUser'')]))) s
      | Some WebkitRejectsObject \<Rightarrow>
          emit (Send WebkitHandler (Plain (VStr ''getUser'')))
            (emit (Send WebkitHandler (Plain (VObj [(''action'', VStr ''getUser'')]))) s)
      | None \<Rightarrow> s)"

text \<open>Lines 320-328.\<close>

definition probe_react_native :: "world \<Rightarrow> world" where
  "probe_react_native s =
     (if reactNativeWebView s
      then emit (Send ReactNativeWebView (Stringified (VObj [(''type'', VStr ''getUser'')]))) s
      else s)"

text \<open>Lines 330-338.\<close>

definition probe_townpass :: "world \<Rightarrow> world" where
  "probe_townpass s =
     (case townPass s of
        Some tp \<Rightarrow>
          if tpPostMessageFn tp
          then emit (Send TownPassBridge (Stringified (VObj [(''type'', VStr ''getUser'')]))) s
          else s
      | None \<Rightarrow> s)"

text \<open>Lines 340-346.\<close>

definition probe_window :: "world \<Rightarrow> world" where
  "probe_window s =
     emit (Send WindowBroadcast
             (Stringified (VObj [(''source'', VStr ''web''), (''type'', VStr ''getUser'')]))) s"

text \<open>Lines 348-360.\<close>

definition sync_getUser :: "json_parse \<Rightarrow> world \<Rightarrow> world" where
  "sync_getUser jp s =
     (case townPass s of
        Some tp \<Rightarrow>
          (case tpGetUser tp of
             NoGetUser \<Rightarrow> s
           | GetUserThrows \<Rightarrow> emit (Send TownPassGetUser Call) s
           | GetUserReturns res \<Rightarrow>
               if truthy res
               then handle_then_cleanup jp res (emit (Send TownPassGetUser Call) s)
               else emit (Send TownPassGetUser Call) s)
      | None \<Rightarrow> s)"

text \<open>Lines 158-270: everything up to and including the timer.\<close>

definition request_listen :: "nat \<Rightarrow> world \<Rightarrow> world" where
  "request_listen ms s =
     (let n = requests s;
          s1 = request_reset (s\<lparr>requests := Suc n\<rparr>);
          s2 = cleanup s1;
          s3 = attach_window n s2;
          s4 = attach_callback n s3;
          s5 = attach_flutter n s4;
          s6 = attach_channel n s5
      in arm_timeout ms s6)"

text \<open>Lines 272-360: the probes, and the direct call at the end.\<close>

definition request_probe :: "json_parse \<Rightarrow> world \<Rightarrow> world" where
  "request_probe jp s =
     (let s8 = probe_flutter s;
          s9 = probe_channel s8;
          s10 = probe_webkit s9;
          s11 = probe_react_native s10;
          s12 = probe_townpass s11;
          s13 = probe_window s12
      in sync_getUser jp s13)"

text \<open>\<^verbatim>\<open>requestTownPassUser\<close>, lines 157-363, with the timeout in milliseconds.\<close>

definition requestTownPassUser :: "json_parse \<Rightarrow> nat \<Rightarrow> world \<Rightarrow> world" where
  "requestTownPassUser jp ms s = request_probe jp (request_listen ms s)"

text \<open>Lines 25-27: the options and their defaults.\<close>

definition timeoutMs :: "nat option \<Rightarrow> nat" where
  "timeoutMs opt = (case opt of Some ms \<Rightarrow> ms | None \<Rightarrow> 3000)"

definition authEndpoint :: "string option \<Rightarrow> string" where
  "authEndpoint opt = (case opt of Some e \<Rightarrow> e | None \<Rightarrow> ''/api/auth/townpass'')"

text \<open>\<^verbatim>\<open>reset\<close>, lines 393-399.\<close>

definition reset :: "world \<Rightarrow> world" where
  "reset s =
     setError None (setIsLoading False (setIsAuthenticated False (setUser VNull (cleanup s))))"

text \<open>The callback given to \<^verbatim>\<open>setTimeout\<close>, lines 265-270, run by the window when the timer
  is still armed.\<close>

definition timer_fires :: "nat \<Rightarrow> world \<Rightarrow> world" where
  "timer_fires t s =
     (if t \<in> set (timers s)
      then cleanup (setError (Some ''TownPass authentication timeout'')
                      (setIsLoading False (s\<lparr>timers := removeAll t (timers s)\<rparr>)))
      else s)"

section \<open>What the host can do\<close>

text \<open>An event dispatched on the window reaches the listeners registered when the dispatch
  starts, except those removed in the meantime.\<close>

definition window_message :: "json_parse \<Rightarrow> jsval \<Rightarrow> world \<Rightarrow> world" where
  "window_message jp ev s =
     foldl (\<lambda>w h. if h \<in> set (messageListeners w) then invoke jp h ev w else w) s
       (messageListeners s)"

definition window_custom_event :: "json_parse \<Rightarrow> jsval \<Rightarrow> world \<Rightarrow> world" where
  "window_custom_event jp ev s =
     foldl (\<lambda>w h. if h \<in> set (customListeners w) then invoke jp h ev w else w) s
       (customListeners s)"

text \<open>The host calls \<^verbatim>\<open>window.__onTownPassUser(payload)\<close> if the hook's function is there.\<close>

definition call_global_callback :: "json_parse \<Rightarrow> jsval \<Rightarrow> world \<Rightarrow> world" where
  "call_global_callback jp payload s =
     (case onTownPassUser s of
        EngineCallback n \<Rightarrow> invoke jp (CallbackFn n) payload s
      | _ \<Rightarrow> s)"

text \<open>A bridge delivers a message to every handler it holds.\<close>

definition bridge_handlers :: "bridge option \<Rightarrow> handler list" where
  "bridge_handlers b =
     (case b of
        Some br \<Rightarrow> registered br @ (case onmessage br of Some h \<Rightarrow> [h] | None \<Rightarrow> [])
      | None \<Rightarrow> [])"

definition flutter_message :: "json_parse \<Rightarrow> jsval \<Rightarrow> world \<Rightarrow> world" where
  "flutter_message jp ev s = foldl (\<lambda>w h. invoke jp h ev w) s (bridge_handlers (flutterObject s))"

definition channel_message :: "json_parse \<Rightarrow> jsval \<Rightarrow> world \<Rightarrow> world" where
  "channel_message jp ev s =
     foldl (\<lambda>w h. invoke jp h ev w) s (bridge_handlers (townpass_message_channel s))"

section \<open>The session exchange\<close>

text \<open>What \<^verbatim>\<open>fetch\<close> gives back: a rejection with the message of the error, or a response
  with its status, the outcome of \<^verbatim>\<open>res.text()\<close> (\<open>None\<close> when it rejects) and the outcome of
  \<^verbatim>\<open>res.json()\<close> (\<open>Inl\<close> the message of the error when the body is not JSON).\<close>

datatype fetch_result =
    Rejects "string option"
  | Response nat "string option" "string option + jsval"

text \<open>The decimal digits of a status, for the template literal of line 377.\<close>

fun show_nat :: "nat \<Rightarrow> string" where
  "show_nat n =
     (if n < 10 then [''0123456789'' ! n]
      else show_nat (n div 10) @ [''0123456789'' ! (n mod 10)])"

declare show_nat.simps [simp del]

text \<open>\<^verbatim>\<open>res.ok\<close>\<close>

definition ok :: "nat \<Rightarrow> bool" where
  "ok status = (200 \<le> status \<and> status \<le> 299)"

text \<open>The \<^verbatim>\<open>catch\<close> block, lines 384-390; the error is thrown again.\<close>

definition login_failed :: "string option \<Rightarrow> world \<Rightarrow> world \<times> (string option + jsval)" where
  "login_failed msg s =
     (setError (Some (case msg of Some m \<Rightarrow> m | None \<Rightarrow> ''Login failed''))
        (setIsLoading False (setIsAuthenticated False s)),
      Inl msg)"

text \<open>\<^verbatim>\<open>loginWithTownPass\<close>, lines 365-391. The result is \<open>Inr\<close> the data returned, or \<open>Inl\<close>
  the message of the error thrown.\<close>

definition loginWithTownPass ::
  "string option \<Rightarrow> (fetch_call \<Rightarrow> fetch_result) \<Rightarrow> jsval \<Rightarrow> world \<Rightarrow>
   world \<times> (string option + jsval)" where
  "loginWithTownPass opt backend u s =
     (let s1 = setError None (setIsLoading True s);
          call = \<lparr>url = authEndpoint opt, http_method = ''POST'',
                  content_type = ''application/json'', credentials = ''include'',
                  body = Stringified (VObj [(''townpass_user'', u)])\<rparr>;
          s2 = emit (Fetch call) s1
      in case backend call of
           Rejects msg \<Rightarrow> login_failed msg s2
         | Response status txt json \<Rightarrow>
             if \<not> ok status
             then login_failed
                    (Some (''Backend auth failed '' @ show_nat status @ '' '' @
                           (case txt of Some t \<Rightarrow> t | None \<Rightarrow> []))) s2
             else (case json of
                     Inl msg \<Rightarrow> login_failed msg s2
                   | Inr data \<Rightarrow> (setIsLoading False (setIsAuthenticated True s2), Inr data)))"

section \<open>Sample hosts\<close>

text \<open>The hook after \<^verbatim>\<open>useTownPassAuth()\<close> in a window that offers no bridge.\<close>

definition initial :: world where
  "initial =
     \<lparr>user = VNull, isLoading = False, error = None, isAuthenticated = False,
      timerRef = None, listenerRef = None, channelListenerRef = None, cleanedRef = False,
      messageListeners = [], customListeners = [], onTownPassUser = Absent,
      flutterObject = None, townpass_message_channel = None, webkitTownPass = None,
      reactNativeWebView = False, townPass = None, timers = [], timerCount = 0,
      requests = 0, trace = []\<rparr>"

text \<open>A bridge as \<^verbatim>\<open>vite-env.d.ts\<close> declares it, with the three methods and no handler yet.\<close>

definition full_bridge :: bridge where
  "full_bridge =
     \<lparr>addEventListenerFn = True, removeEventListenerFn = True, postMessageFn = True,
      registered = [], onmessage = None\<rparr>"

text \<open>A window with the primary bridge, one with the secondary channel only, one where the
  host has put its own function into \<^verbatim>\<open>window.__onTownPassUser\<close>, and one that offers every
  mechanism, the direct accessor \<^verbatim>\<open>TownPass.getUser\<close> included.\<close>

definition flutter_host :: world where
  "flutter_host = initial\<lparr>flutterObject := Some full_bridge\<rparr>"

definition channel_host :: world where
  "channel_host = initial\<lparr>townpass_message_channel := Some full_bridge\<rparr>"

definition callback_host :: world where
  "callback_host = initial\<lparr>onTownPassUser := HostFunction 7\<rparr>"

definition full_host :: world where
  "full_host =
     initial\<lparr>flutterObject := Some full_bridge,
             townpass_message_channel := Some full_bridge,
             webkitTownPass := Some WebkitAccepts,
             reactNativeWebView := True,
             townPass := Some \<lparr>tpPostMessageFn = True,
                               tpGetUser = GetUserReturns (VObj [(''id'', VStr ''u1'')])\<rparr>\<rparr>"

text \<open>A window that offers both bridges and nothing else.\<close>

definition bridged_host :: world where
  "bridged_host =
     initial\<lparr>flutterObject := Some full_bridge,
             townpass_message_channel := Some full_bridge\<rparr>"

text \<open>Three backends: one that refuses with status 401, one that answers 200 with a JSON
  body, and one that answers 200 with a body that is not JSON.\<close>

definition unauthorized_backend :: "fetch_call \<Rightarrow> fetch_result" where
  "unauthorized_backend c = Response 401 (Some ''Unauthorized'') (Inl (Some ''Unexpected token U''))"

definition json_backend :: "fetch_call \<Rightarrow> fetch_result" where
  "json_backend c = Response 200 (Some ''{\"success\":true}'') (Inr (VObj [(''success'', VBool True)]))"

definition text_backend :: "fetch_call \<Rightarrow> fetch_result" where
  "text_backend c = Response 200 (Some ''OK'') (Inl (Some ''Unexpected token O''))"

section \<open>Reading the trace\<close>

text \<open>A probe is anything handed to the host; listening is attaching a handler or arming the
  timer.\<close>

fun is_send :: "event \<Rightarrow> bool" where
  "is_send (Send c m) = True"
| "is_send e = False"

fun is_listen :: "event \<Rightarrow> bool" where
  "is_listen (Attach c h) = True"
| "is_listen (SetTimeout t ms) = True"
| "is_listen e = False"

fun is_fetch :: "event \<Rightarrow> bool" where
  "is_fetch (Fetch c) = True"
| "is_fetch e = False"

text \<open>The channels probed, in the order of the probes.\<close>

fun probed :: "event list \<Rightarrow> channel list" where
  "probed [] = []"
| "probed (Send c m # evs) = c # probed evs"
| "probed (e # evs) = probed evs"

text \<open>The order of the probes as the amended claim C8 words it: primary bridge, secondary
  channel, the native handlers, the broadcast, and the direct accessor last; each only if the
  host offers it.\<close>

definition probe_order :: "world \<Rightarrow> channel list" where
  "probe_order s =
     (case flutterObject s of
        Some fo \<Rightarrow> if postMessageFn fo then [FlutterObject] else []
      | None \<Rightarrow> []) @
     (case townpass_message_channel s of
        Some ch \<Rightarrow> if postMessageFn ch then [TownpassMessageChannel] else []
      | None \<Rightarrow> []) @
     (case webkitTownPass s of
        Some WebkitAccepts \<Rightarrow> [WebkitHandler]
      | Some WebkitRejectsObject \<Rightarrow> [WebkitHandler, WebkitHandler]
      | None \<Rightarrow> []) @
     (if reactNativeWebView s then [ReactNativeWebView] else []) @
     (case townPass s of
        Some tp \<Rightarrow> if tpPostMessageFn tp then [TownPassBridge] else []
      | None \<Rightarrow> []) @
     [WindowBroadcast] @
     (case townPass s of
        Some tp \<Rightarrow> (case tpGetUser tp of NoGetUser \<Rightarrow> [] | _ \<Rightarrow> [TownPassGetUser])
      | None \<Rightarrow> [])"

text \<open>Whether the direct accessor of the host answers with something the normalizer
  accepts (lines 350-356).\<close>

definition accessor_resolves :: "json_parse \<Rightarrow> world \<Rightarrow> bool" where
  "accessor_resolves jp s =
     (case townPass s of
        Some tp \<Rightarrow>
          (case tpGetUser tp of
             GetUserReturns res \<Rightarrow> truthy res \<and> snd (handleIncomingRaw jp res s)
           | _ \<Rightarrow> False)
      | None \<Rightarrow> False)"

text \<open>Lines 168-270 in one step: all listeners and the timer.\<close>

definition attach_all :: "nat \<Rightarrow> nat \<Rightarrow> world \<Rightarrow> world" where
  "attach_all ms n c =
     arm_timeout ms (attach_channel n (attach_flutter n (attach_callback n (attach_window n c))))"

text \<open>What lines 273-346 send, for the offers of a given host.\<close>

definition probes :: "world \<Rightarrow> event list" where
  "probes s =
     (case flutterObject s of
        Some fo \<Rightarrow>
          if postMessageFn fo
          then [Send FlutterObject
                  (Stringified (VObj [(''name'', VStr ''userinfo''), (''data'', VNull)]))]
          else []
      | None \<Rightarrow> []) @
     (case townpass_message_channel s of
        Some ch \<Rightarrow>
          if postMessageFn ch
          then [Send TownpassMessageChannel
                  (Stringified (VObj [(''name'', VStr ''userid''), (''data'', VNull)]))]
          else []
      | None \<Rightarrow> []) @
     (case webkitTownPass s of
        Some WebkitAccepts \<Rightarrow> [Send WebkitHandler (Plain (VObj [(''action'', VStr ''getUser'')]))]
      | Some WebkitRejectsObject \<Rightarrow>
          [Send WebkitHandler (Plain (VObj [(''action'', VStr ''getUser'')])),
           Send WebkitHandler (Plain (VStr ''getUser''))]
      | None \<Rightarrow> []) @
     (if reactNativeWebView s
      then [Send ReactNativeWebView (Stringified (VObj [(''type'', VStr ''getUser'')]))]
      else []) @
     (case townPass s of
        Some tp \<Rightarrow>
          if tpPostMessageFn tp
          then [Send TownPassBridge (Stringified (VObj [(''type'', VStr ''getUser'')]))]
          else []
      | None \<Rightarrow> []) @
     [Send WindowBroadcast
        (Stringified (VObj [(''source'', VStr ''web''), (''type'', VStr ''getUser'')]))]"

text \<open>The request started in the state \<open>s\<close> is listening in the state \<open>w\<close>: its \<^verbatim>\<open>message\<close>
  listener is registered on the window and kept in \<^verbatim>\<open>listenerRef\<close>, its \<^verbatim>\<open>townpass:user\<close>
  listener is registered, its callback is in \<^verbatim>\<open>window.__onTownPassUser\<close>, its handlers are held
  by the bridges that the host has, and its timer is armed and kept in \<^verbatim>\<open>timerRef\<close>.\<close>

definition listening :: "world \<Rightarrow> world \<Rightarrow> bool" where
  "listening s w =
     (GenericListener (requests s) \<in> set (messageListeners w) \<and>
      listenerRef w = Some (GenericListener (requests s)) \<and>
      CustomListener (requests s) \<in> set (customListeners w) \<and>
      onTownPassUser w = EngineCallback (requests s) \<and>
      (case flutterObject s of
         Some fo \<Rightarrow> FlutterHandler (requests s) \<in> set (bridge_handlers (flutterObject w))
       | None \<Rightarrow> True) \<and>
      (case townpass_message_channel s of
         Some ch \<Rightarrow> ChannelHandler (requests s) \<in> set (bridge_handlers (townpass_message_channel w))
       | None \<Rightarrow> True) \<and>
      Suc (timerCount s) \<in> set (timers w) \<and>
      timerRef w = Some (Suc (timerCount s)))"

text \<open>Teardown emits neither probes nor attachments.\<close>

definition quiet :: "event list \<Rightarrow> bool" where
  "quiet evs = (filter is_send evs = [] \<and> filter is_listen evs = [])"

section \<open>Totality of the normalizer\<close>

lemma truthy_not_nullish: "truthy v \<Longrightarrow> \<not> nullish v"
  by (cases v) simp_all

lemma getp_ok: "\<not> nullish v \<Longrightarrow> getp v k = Inr (field v k)"
  by (simp add: getp_def)

lemma optp_ok: "\<not> nullish v \<Longrightarrow> optp v k = field v k"
  by (simp add: optp_def)

lemma bindE_Inr: "bindE (Inr x) f = f x"
  by (simp add: bindE_def)

lemma decode_not_null: "truthy raw \<Longrightarrow> decode jp raw \<noteq> VNull"
  by (cases raw) (simp_all add: decode_def Let_def)

lemma typeof_string: "typeof d = ''string'' \<longleftrightarrow> (\<exists>s. d = VStr s)"
  by (cases d) simp_all

lemma cond_user_eq:
  "p \<noteq> VNull \<Longrightarrow> cond_user p =
     Inr (truthy (optp p ''user'') \<and> typeof (optp p ''user'') = ''object'' \<and>
          truthy (optp (optp p ''user'') ''id''))"
  by (cases "nullish p"; cases p)
     (auto simp: cond_user_def andE_def truthyE_def bindE_def getp_def optp_def
           dest: truthy_not_nullish)

lemma reply_userinfo_eq:
  "p \<noteq> VNull \<Longrightarrow> reply_userinfo jp p =
     Inr (if matches CommandReply p then Some (carried jp CommandReply p) else None)"
  by (cases "nullish p"; cases p)
     (auto simp: reply_userinfo_def bindE_def getp_def optp_def typeof_string
           split: jsval.splits)

lemma cond_detail_eq:
  "p \<noteq> VNull \<Longrightarrow> cond_detail p = Inr (matches EventDetail p)"
  by (cases "nullish p"; cases p)
     (auto simp: cond_detail_def andE_def orE_def truthyE_def bindE_def getp_def optp_def
           dest: truthy_not_nullish)

lemma ret_detail_eq:
  "matches EventDetail p \<Longrightarrow> ret_detail p = Inr (carried jp EventDetail p)"
  by (cases "nullish p"; cases p)
     (auto simp: ret_detail_def bindE_def getp_def optp_def nc_def
           dest: truthy_not_nullish)

lemma cond_bare_eq:
  "p \<noteq> VNull \<Longrightarrow> cond_bare p = Inr (matches BareIdentity p)"
  by (cases "nullish p"; cases p)
     (auto simp: cond_bare_def andE_def truthyE_def bindE_def getp_def optp_def)

lemma head_branches:
  "p \<noteq> VNull \<Longrightarrow> matches Tagged p \<Longrightarrow>
   (if optp p ''source'' = VStr ''townpass'' \<and>
         (optp p ''type'' = VStr ''user'' \<or> optp p ''type'' = VStr ''user_info'')
      then bindE (getp p ''payload'') (\<lambda>a.
             if \<not> nullish a then Inr a
             else bindE (getp p ''user'') (\<lambda>b. Inr (nc b VNull)))
      else if optp p ''type'' = VStr ''townpass:user'' \<and> truthy (optp p ''user'')
      then getp p ''user''
      else if (optp p ''type'' = VStr ''TOWNPASS_USER'' \<or>
               optp p ''type'' = VStr ''TOWNPASS_USER_INFO'') \<and>
              truthy (optp p ''user'')
      then getp p ''user'' else X) = Inr (carried jp Tagged p)"
proof (cases "nullish p")
  case True
  assume "p \<noteq> VNull" "matches Tagged p"
  with True have "p = VUndefined" by (cases p) simp_all
  with \<open>matches Tagged p\<close> show ?thesis by (simp add: optp_def)
next
  case False
  assume "matches Tagged p"
  with False show ?thesis
    by (auto simp: optp_ok getp_ok bindE_Inr nc_def split: if_splits)
qed

lemma skip_tagged:
  "\<not> matches Tagged p \<Longrightarrow>
   (if optp p ''source'' = VStr ''townpass'' \<and>
         (optp p ''type'' = VStr ''user'' \<or> optp p ''type'' = VStr ''user_info'')
      then A
      else if optp p ''type'' = VStr ''townpass:user'' \<and> truthy (optp p ''user'')
      then B
      else if (optp p ''type'' = VStr ''TOWNPASS_USER'' \<or>
               optp p ''type'' = VStr ''TOWNPASS_USER_INFO'') \<and>
              truthy (optp p ''user'')
      then C else X) = X"
  by (auto split: if_splits)

lemma getp_truthy: "truthy (optp p k) \<Longrightarrow> getp p k = Inr (optp p k)"
  by (cases "nullish p") (simp_all add: optp_def getp_def)

lemma nested_branches:
  assumes "p \<noteq> VNull" "matches Nested p"
  shows "(if truthy (optp p ''townpass_user'') then getp p ''townpass_user''
          else bindE (cond_user p) (\<lambda>c5. if c5 then getp p ''user'' else X c5)) =
         Inr (carried jp Nested p)"
  using assms by (auto simp: cond_user_eq bindE_Inr getp_truthy)

lemma skip_nested:
  assumes "p \<noteq> VNull" "\<not> matches Nested p"
  shows "(if truthy (optp p ''townpass_user'') then A
          else bindE (cond_user p) (\<lambda>c5. if c5 then B else X)) = X"
  using assms by (auto simp: cond_user_eq bindE_Inr)

lemma reply_branch:
  assumes "p \<noteq> VNull"
  shows "bindE (reply_userinfo jp p) (\<lambda>r6. case r6 of Some v \<Rightarrow> Inr v | None \<Rightarrow> X) =
         (if matches CommandReply p then Inr (carried jp CommandReply p) else X)"
  using assms by (simp add: reply_userinfo_eq bindE_Inr del: matches.simps carried.simps)

lemma tail_branches:
  assumes "p \<noteq> VNull"
  shows "bindE (cond_detail p) (\<lambda>c7.
              if c7 then ret_detail p
              else bindE (cond_bare p) (\<lambda>c8. if c8 then Inr p else Inr VNull)) =
         Inr (first_match jp [EventDetail, BareIdentity] p)"
  using assms
  by (simp add: cond_detail_eq cond_bare_eq bindE_Inr ret_detail_eq [of p jp]
           del: matches.simps carried.simps(1,2,3,5))

lemma parseIncoming_first_match:
  "parseIncoming jp raw =
     Inr (if truthy raw then first_match jp source_order (decode jp raw) else VNull)"
proof (cases "truthy raw")
  case False
  then show ?thesis by (simp add: parseIncoming_def)
next
  case True
  define p where "p = decode jp raw"
  have nn: "p \<noteq> VNull" using True by (simp add: p_def decode_not_null)
  have unf: "parseIncoming jp raw = 
     (if optp p ''source'' = VStr ''townpass'' \<and>
         (optp p ''type'' = VStr ''user'' \<or> optp p ''type'' = VStr ''user_info'')
      then bindE (getp p ''payload'') (\<lambda>a.
             if \<not> nullish a then Inr a
             else bindE (getp p ''user'') (\<lambda>b. Inr (nc b VNull)))
      else if optp p ''type'' = VStr ''townpass:user'' \<and> truthy (optp p ''user'')
      then getp p ''user''
      else if (optp p ''type'' = VStr ''TOWNPASS_USER'' \<or>
               optp p ''type'' = VStr ''TOWNPASS_USER_INFO'') \<and>
              truthy (optp p ''user'')
      then getp p ''user''
      else if truthy (optp p ''townpass_user'')
      then getp p ''townpass_user''
      else
       bindE (cond_user p) (\<lambda>c5.
        if c5 then getp p ''user''
        else
         bindE (reply_userinfo jp p) (\<lambda>r6.
          case r6 of
            Some v \<Rightarrow> Inr v
          | None \<Rightarrow>
             bindE (cond_detail p) (\<lambda>c7.
              if c7 then ret_detail p
              else bindE (cond_bare p) (\<lambda>c8.
                     if c8 then Inr p else Inr VNull)))))"
    using True by (simp only: parseIncoming_def Let_def p_def not_True_eq_False if_False)
  have goal: "parseIncoming jp raw = Inr (first_match jp source_order p)"
  proof (cases "matches Tagged p")
    case True
    show ?thesis
      unfolding unf using head_branches [OF nn True, of _ jp] True
      by (simp only: source_order_def first_match.simps if_True)
  next
    case nt: False
    show ?thesis
    proof (cases "matches Nested p")
      case True
      show ?thesis
        unfolding unf skip_tagged [OF nt] using nested_branches [OF nn True, of _ jp] nt True
        by (simp only: source_order_def first_match.simps if_True if_False)
    next
      case nn2: False
      show ?thesis
        unfolding unf skip_tagged [OF nt] skip_nested [OF nn nn2] reply_branch [OF nn]
          tail_branches [OF nn, of jp]
        using nt nn2
        by (simp add: source_order_def del: matches.simps carried.simps)
    qed
  qed
  with True show ?thesis by (simp add: p_def)
qed

section \<open>The order of the shapes\<close>

text \<open>
  C4 (as amended). \<^verbatim>\<open>parseIncoming\<close> returns null for a falsy input; otherwise it decodes a
  string once and tries the shapes in the fixed order of the source: tagged envelope, nested
  \<^verbatim>\<open>townpass_user\<close> or \<^verbatim>\<open>user\<close> key, \<^verbatim>\<open>userinfo\<close> command reply, event wrapper \<^verbatim>\<open>detail\<close>, and
  the bare object with an identifier last. The first shape of this order that matches
  decides the result.
\<close>

theorem parseIncoming_source_order:
  "parseIncoming jp raw =
     Inr (if truthy raw
          then first_match jp [Tagged, Nested, CommandReply, EventDetail, BareIdentity]
                 (decode jp raw)
          else VNull)"
  using parseIncoming_first_match [of jp raw] by (simp only: source_order_def)

text \<open>
  C4 as stated fails: an object that has an identifier and also a \<^verbatim>\<open>detail.user\<close> is a bare
  identity and an event wrapper at once. In the listed order the bare object would decide;
  the code returns the user inside \<^verbatim>\<open>detail\<close>.
\<close>

theorem parseIncoming_listed_order_counterexample:
  "parseIncoming sample_json
     (VObj [(''id'', VStr ''a''), (''detail'', VObj [(''user'', VObj [(''id'', VStr ''b'')])])])
     = Inr (VObj [(''id'', VStr ''b'')]) \<and>
   first_match sample_json listed_order
     (decode sample_json
        (VObj [(''id'', VStr ''a''), (''detail'', VObj [(''user'', VObj [(''id'', VStr ''b'')])])]))
     = VObj [(''id'', VStr ''a''), (''detail'', VObj [(''user'', VObj [(''id'', VStr ''b'')])])]"
  by (simp add: parseIncoming_first_match source_order_def listed_order_def decode_def
        optp_def nc_def)

section \<open>The normalizer never throws\<close>

text \<open>
  What holds of \<^verbatim>\<open>parseIncoming\<close> for every input and every \<^verbatim>\<open>JSON.parse\<close>: it returns a value
  and never throws; the value is null when no shape matches; a text that cannot be decoded
  gives null; a text that can be decoded is matched as the decoded value, and is not decoded
  a second time when it decodes to a text; and an envelope of a supported shape that carries
  an object with a truthy \<^verbatim>\<open>id\<close> gives that object.
\<close>

lemma parseIncoming_never_throws:
  "(\<exists>v. parseIncoming jp raw = Inr v) \<and>
   ((\<forall>sh. \<not> matches sh (decode jp raw)) \<longrightarrow> parseIncoming jp raw = Inr VNull) \<and>
   (jp s1 = None \<longrightarrow> parseIncoming jp (VStr s1) = Inr VNull) \<and>
   (s2 \<noteq> [] \<and> jp s2 = Some v2 \<and> v2 \<noteq> VNull \<longrightarrow>
      parseIncoming jp (VStr s2) = Inr (first_match jp source_order v2)) \<and>
   (jp s2 = Some (VStr t) \<longrightarrow> parseIncoming jp (VStr s2) = Inr VNull) \<and>
   (truthy (field (VObj kvs) ''id'') \<longrightarrow>
      parseIncoming jp (VObj [(''source'', VStr ''townpass''), (''type'', VStr ''user''),
                              (''payload'', VObj kvs)]) = Inr (VObj kvs) \<and>
      parseIncoming jp (VObj [(''source'', VStr ''townpass''), (''type'', VStr ''user_info''),
                              (''user'', VObj kvs)]) = Inr (VObj kvs) \<and>
      parseIncoming jp (VObj [(''type'', VStr ''townpass:user''), (''user'', VObj kvs)])
        = Inr (VObj kvs) \<and>
      parseIncoming jp (VObj [(''type'', VStr ''TOWNPASS_USER''), (''user'', VObj kvs)])
        = Inr (VObj kvs) \<and>
      parseIncoming jp (VObj [(''type'', VStr ''TOWNPASS_USER_INFO''), (''user'', VObj kvs)])
        = Inr (VObj kvs) \<and>
      parseIncoming jp (VObj [(''townpass_user'', VObj kvs)]) = Inr (VObj kvs) \<and>
      parseIncoming jp (VObj [(''user'', VObj kvs)]) = Inr (VObj kvs) \<and>
      parseIncoming jp (VObj [(''name'', VStr ''userinfo''), (''data'', VObj kvs)])
        = Inr (VObj kvs) \<and>
      (jp s3 = Some (VObj kvs) \<longrightarrow>
         parseIncoming jp (VObj [(''name'', VStr ''userinfo''), (''data'', VStr s3)])
           = Inr (VObj kvs)) \<and>
      parseIncoming jp (VObj [(''detail'', VObj [(''user'', VObj kvs)])]) = Inr (VObj kvs) \<and>
      parseIncoming jp (VObj [(''detail'', VObj [(''townpass_user'', VObj kvs)])])
        = Inr (VObj kvs) \<and>
      ((\<forall>sh. sh \<noteq> BareIdentity \<longrightarrow> \<not> matches sh (VObj kvs)) \<longrightarrow>
         parseIncoming jp (VObj kvs) = Inr (VObj kvs)))"
proof -
  have total: "\<exists>v. parseIncoming jp raw = Inr v"
    by (simp add: parseIncoming_first_match)
  have unmatched: "parseIncoming jp raw = Inr VNull" if "\<forall>sh. \<not> matches sh (decode jp raw)"
    using that
    by (simp add: parseIncoming_first_match source_order_def del: matches.simps)
  have undecoded: "parseIncoming jp (VStr s1) = Inr VNull" if "jp s1 = None"
    using that
    by (simp add: parseIncoming_first_match source_order_def decode_def tryParse_def optp_def)
  have decoded: "parseIncoming jp (VStr s2) = Inr (first_match jp source_order v2)"
    if "s2 \<noteq> [] \<and> jp s2 = Some v2 \<and> v2 \<noteq> VNull"
    using that
    by (simp add: parseIncoming_first_match decode_def tryParse_def)
  have once: "parseIncoming jp (VStr s2) = Inr VNull" if "jp s2 = Some (VStr t)"
    using that
    by (simp add: parseIncoming_first_match source_order_def decode_def tryParse_def optp_def)
  have env: "parseIncoming jp (VObj e) = Inr (first_match jp source_order (VObj e))" for e
    by (simp add: parseIncoming_first_match decode_def)
  have bare: "parseIncoming jp (VObj kvs) = Inr (VObj kvs)"
    if "truthy (field (VObj kvs) ''id'')" "\<forall>sh. sh \<noteq> BareIdentity \<longrightarrow> \<not> matches sh (VObj kvs)"
  proof -
    from that(2) have "\<not> matches Tagged (VObj kvs)" "\<not> matches Nested (VObj kvs)"
      "\<not> matches CommandReply (VObj kvs)" "\<not> matches EventDetail (VObj kvs)"
      by blast+
    moreover from that(1) have "matches BareIdentity (VObj kvs)"
      by (simp add: optp_def)
    ultimately show ?thesis
      unfolding env source_order_def by (simp del: matches.simps)
  qed
  show ?thesis
    apply (intro conjI impI)
    subgoal by (rule total)
    subgoal by (rule unmatched)
    subgoal by (rule undecoded)
    subgoal by (rule decoded)
    subgoal by (rule once)
    subgoal by (simp add: env source_order_def optp_def nc_def)
    subgoal by (simp add: env source_order_def optp_def nc_def)
    subgoal by (simp add: env source_order_def optp_def nc_def)
    subgoal by (simp add: env source_order_def optp_def nc_def)
    subgoal by (simp add: env source_order_def optp_def nc_def)
    subgoal by (simp add: env source_order_def optp_def nc_def)
    subgoal by (simp add: env source_order_def optp_def nc_def)
    subgoal by (simp add: env source_order_def optp_def nc_def)
    subgoal by (simp add: env source_order_def optp_def nc_def tryParse_def)
    subgoal by (simp add: env source_order_def optp_def nc_def)
    subgoal by (simp add: env source_order_def optp_def nc_def)
    subgoal by (rule bare)
    done
qed

text \<open>
  C5 at a failing input. The object \<^verbatim>\<open>{townpass_user: 5}\<close> makes the branch of line 66 return
  the number 5, which is neither an identity record nor null, although the function is
  declared to return \<^verbatim>\<open>TownPassUser | null\<close> and the branch of line 69 does check that
  \<^verbatim>\<open>user\<close> is an object with an \<^verbatim>\<open>id\<close>: \<^verbatim>\<open>{user: 5}\<close> gives null. One such message through the
  global callback resolves the request with the user 5 and disarms the timer.
\<close>

theorem non_record_is_returned:
  "parseIncoming sample_json (VObj [(''townpass_user'', VNum 5)]) = Inr (VNum 5) \<and>
   parseIncoming sample_json (VObj [(''user'', VNum 5)]) = Inr VNull \<and>
   user (call_global_callback sample_json (VObj [(''townpass_user'', VNum 5)])
           (requestTownPassUser sample_json 3000 initial)) = VNum 5 \<and>
   \<not> isLoading (call_global_callback sample_json (VObj [(''townpass_user'', VNum 5)])
           (requestTownPassUser sample_json 3000 initial)) \<and>
   timers (call_global_callback sample_json (VObj [(''townpass_user'', VNum 5)])
           (requestTownPassUser sample_json 3000 initial)) = []"
  by code_simp

section \<open>The trace of a request\<close>

lemma probed_append: "probed (xs @ ys) = probed xs @ probed ys"
  by (induction xs rule: probed.induct) simp_all

lemma trace_emit: "trace (emit e s) = trace s @ [e]"
  by (simp add: emit_def)

lemma trace_cleanup_timer:
  "\<exists>evs. trace (cleanup_timer s) = trace s @ evs \<and> quiet evs"
  by (simp add: cleanup_timer_def clearTimeout_def emit_def quiet_def split: option.splits)

lemma trace_cleanup_message:
  "\<exists>evs. trace (cleanup_message s) = trace s @ evs \<and> quiet evs"
  by (simp add: cleanup_message_def emit_def quiet_def split: option.splits)

lemma trace_cleanup_channel:
  "\<exists>evs. trace (cleanup_channel s) = trace s @ evs \<and> quiet evs"
  by (simp add: cleanup_channel_def emit_def quiet_def split: option.splits)

lemma trace_cleanup_callback:
  "\<exists>evs. trace (cleanup_callback s) = trace s @ evs \<and> quiet evs"
  by (simp add: cleanup_callback_def emit_def quiet_def split: slot.splits)

lemma quiet_append: "quiet xs \<Longrightarrow> quiet ys \<Longrightarrow> quiet (xs @ ys)"
  by (simp add: quiet_def)

lemma trace_cleanup: "\<exists>evs. trace (cleanup s) = trace s @ evs \<and> quiet evs"
proof -
  let ?s0 = "s\<lparr>cleanedRef := True\<rparr>"
  obtain e1 where 1: "trace (cleanup_timer ?s0) = trace s @ e1" "quiet e1"
    using trace_cleanup_timer [of ?s0] by auto
  obtain e2 where 2: "trace (cleanup_message (cleanup_timer ?s0)) = trace (cleanup_timer ?s0) @ e2" "quiet e2"
    using trace_cleanup_message by blast
  obtain e3 where 3: "trace (cleanup_channel (cleanup_message (cleanup_timer ?s0))) = trace (cleanup_message (cleanup_timer ?s0)) @ e3" "quiet e3"
    using trace_cleanup_channel by blast
  obtain e4 where 4: "trace (cleanup s) = trace (cleanup_channel (cleanup_message (cleanup_timer ?s0))) @ e4" "quiet e4"
    unfolding cleanup_def using trace_cleanup_callback by blast
  have "trace (cleanup s) = trace s @ (e1 @ e2 @ e3 @ e4)"
    by (simp add: 1 2 3 4)
  moreover have "quiet (e1 @ e2 @ e3 @ e4)"
    by (intro quiet_append 1 2 3 4)
  ultimately show ?thesis by blast
qed

lemma trace_handle_then_cleanup:
  "\<exists>evs. trace (handle_then_cleanup jp raw s) = trace s @ evs \<and> quiet evs"
proof (cases "snd (handleIncomingRaw jp raw s)")
  case False
  then have "handle_then_cleanup jp raw s = s"
    by (auto simp: handle_then_cleanup_def handleIncomingRaw_def split: sum.splits if_splits)
  then show ?thesis by (simp add: quiet_def)
next
  case True
  then obtain v where v: "handleIncomingRaw jp raw s = (setError None (setIsLoading False (setUser v s)), True)"
    by (auto simp: handleIncomingRaw_def split: sum.splits if_splits)
  let ?s1 = "setError None (setIsLoading False (setUser v s))"
  have t1: "trace ?s1 = trace s @ [StateUser v, StateLoading False, StateError None]"
    by (simp add: setError_def setIsLoading_def setUser_def emit_def)
  obtain e where e: "trace (cleanup ?s1) = trace ?s1 @ e" "quiet e"
    using trace_cleanup by blast
  have "handle_then_cleanup jp raw s = cleanup ?s1"
    by (simp add: handle_then_cleanup_def v)
  then have "trace (handle_then_cleanup jp raw s) = trace s @ ([StateUser v, StateLoading False, StateError None] @ e)"
    using e t1 by simp
  moreover have "quiet ([StateUser v, StateLoading False, StateError None] @ e)"
    using e(2) by (simp add: quiet_def)
  ultimately show ?thesis by blast
qed

subsection \<open>What the steps of a request leave unchanged\<close>

lemma cleanup_timer_frame:
  "flutterObject (cleanup_timer s) = flutterObject s"
  "townpass_message_channel (cleanup_timer s) = townpass_message_channel s"
  "timerCount (cleanup_timer s) = timerCount s"
  "user (cleanup_timer s) = user s"
  "error (cleanup_timer s) = error s"
  "isLoading (cleanup_timer s) = isLoading s"
  by (simp_all add: cleanup_timer_def clearTimeout_def emit_def split: option.splits)

lemma cleanup_message_frame:
  "flutterObject (cleanup_message s) = flutterObject s"
  "townpass_message_channel (cleanup_message s) = townpass_message_channel s"
  "timerCount (cleanup_message s) = timerCount s"
  "user (cleanup_message s) = user s"
  "error (cleanup_message s) = error s"
  "isLoading (cleanup_message s) = isLoading s"
  by (simp_all add: cleanup_message_def emit_def split: option.splits)

lemma cleanup_channel_frame:
  "flutterObject (cleanup_channel s) = flutterObject s"
  "map_option postMessageFn (townpass_message_channel (cleanup_channel s)) =
     map_option postMessageFn (townpass_message_channel s)"
  "timerCount (cleanup_channel s) = timerCount s"
  "user (cleanup_channel s) = user s"
  "error (cleanup_channel s) = error s"
  "isLoading (cleanup_channel s) = isLoading s"
  by (simp_all add: cleanup_channel_def emit_def split: option.splits)

lemma cleanup_callback_frame:
  "flutterObject (cleanup_callback s) = flutterObject s"
  "townpass_message_channel (cleanup_callback s) = townpass_message_channel s"
  "timerCount (cleanup_callback s) = timerCount s"
  "user (cleanup_callback s) = user s"
  "error (cleanup_callback s) = error s"
  "isLoading (cleanup_callback s) = isLoading s"
  by (simp_all add: cleanup_callback_def emit_def split: slot.splits)

lemma cleanup_frame:
  "flutterObject (cleanup s) = flutterObject s"
  "map_option postMessageFn (townpass_message_channel (cleanup s)) =
     map_option postMessageFn (townpass_message_channel s)"
  "timerCount (cleanup s) = timerCount s"
  "user (cleanup s) = user s"
  "error (cleanup s) = error s"
  "isLoading (cleanup s) = isLoading s"
  by (simp_all add: cleanup_def cleanup_timer_frame cleanup_message_frame
        cleanup_channel_frame cleanup_callback_frame)

lemma cleanup_host:
  "webkitTownPass (cleanup s) = webkitTownPass s"
  "reactNativeWebView (cleanup s) = reactNativeWebView s"
  "townPass (cleanup s) = townPass s"
  by (simp_all add: cleanup_def cleanup_timer_def cleanup_message_def cleanup_channel_def
        cleanup_callback_def clearTimeout_def emit_def split: option.splits slot.splits)

lemma cleanup_channel_present:
  "(townpass_message_channel (cleanup s) = None) = (townpass_message_channel s = None)"
  using cleanup_frame(2) [of s] by (metis map_option_is_None)

subsection \<open>Attaching and arming\<close>

lemma attach_all_trace:
  "trace (attach_all ms n c) =
     trace c @
     [Attach WindowMessage (GenericListener n), Attach WindowCustomEvent (CustomListener n),
      Attach GlobalCallback (CallbackFn n)] @
     (case flutterObject c of Some fo \<Rightarrow> [Attach FlutterObject (FlutterHandler n)] | None \<Rightarrow> []) @
     (case townpass_message_channel c of
        Some ch \<Rightarrow> [Attach TownpassMessageChannel (ChannelHandler n)] | None \<Rightarrow> []) @
     [SetTimeout (Suc (timerCount c)) ms]"
  by (simp add: attach_all_def arm_timeout_def attach_channel_def attach_flutter_def
        attach_callback_def attach_window_def setTimeout_def emit_def Let_def
      split: option.splits)

lemma attach_all_frame:
  "map_option postMessageFn (flutterObject (attach_all ms n c)) =
     map_option postMessageFn (flutterObject c)"
  "map_option postMessageFn (townpass_message_channel (attach_all ms n c)) =
     map_option postMessageFn (townpass_message_channel c)"
  "webkitTownPass (attach_all ms n c) = webkitTownPass c"
  "reactNativeWebView (attach_all ms n c) = reactNativeWebView c"
  "townPass (attach_all ms n c) = townPass c"
  "user (attach_all ms n c) = user c"
  "error (attach_all ms n c) = error c"
  "isLoading (attach_all ms n c) = isLoading c"
  "timers (attach_all ms n c) = timers c @ [Suc (timerCount c)]"
  by (simp_all add: attach_all_def arm_timeout_def attach_channel_def attach_flutter_def
        attach_callback_def attach_window_def setTimeout_def emit_def Let_def subscribe_def
      split: option.splits)

lemma request_reset_trace:
  "trace (request_reset s) = trace s @ [StateLoading True, StateError None, StateUser VNull]"
  by (simp add: request_reset_def setUser_def setError_def setIsLoading_def emit_def)

lemma request_reset_frame:
  "flutterObject (request_reset s) = flutterObject s"
  "townpass_message_channel (request_reset s) = townpass_message_channel s"
  "webkitTownPass (request_reset s) = webkitTownPass s"
  "reactNativeWebView (request_reset s) = reactNativeWebView s"
  "townPass (request_reset s) = townPass s"
  "timerCount (request_reset s) = timerCount s"
  "user (request_reset s) = VNull"
  "error (request_reset s) = None"
  "isLoading (request_reset s) = True"
  by (simp_all add: request_reset_def setUser_def setError_def setIsLoading_def emit_def)

lemma request_listen_eq:
  "request_listen ms s =
     attach_all ms (requests s) (cleanup (request_reset (s\<lparr>requests := Suc (requests s)\<rparr>)))"
  by (simp add: request_listen_def attach_all_def Let_def)

lemma request_listen_trace:
  "\<exists>mid. trace (request_listen ms s) =
     trace s @ [StateLoading True, StateError None, StateUser VNull] @ mid @
     [Attach WindowMessage (GenericListener (requests s)),
      Attach WindowCustomEvent (CustomListener (requests s)),
      Attach GlobalCallback (CallbackFn (requests s))] @
     (case flutterObject s of
        Some fo \<Rightarrow> [Attach FlutterObject (FlutterHandler (requests s))] | None \<Rightarrow> []) @
     (case townpass_message_channel s of
        Some ch \<Rightarrow> [Attach TownpassMessageChannel (ChannelHandler (requests s))] | None \<Rightarrow> []) @
     [SetTimeout (Suc (timerCount s)) ms] \<and> quiet mid"
proof -
  let ?r = "request_reset (s\<lparr>requests := Suc (requests s)\<rparr>)"
  obtain mid where mid: "trace (cleanup ?r) = trace ?r @ mid" "quiet mid"
    using trace_cleanup by blast
  have ch: "(case townpass_message_channel (cleanup ?r) of
               Some ch \<Rightarrow> [Attach TownpassMessageChannel (ChannelHandler (requests s))]
             | None \<Rightarrow> []) =
            (case townpass_message_channel s of
               Some ch \<Rightarrow> [Attach TownpassMessageChannel (ChannelHandler (requests s))]
             | None \<Rightarrow> [])"
    using cleanup_channel_present [of ?r]
    by (auto simp: request_reset_frame split: option.splits)
  have "trace (request_listen ms s) =
     trace s @ [StateLoading True, StateError None, StateUser VNull] @ mid @
     [Attach WindowMessage (GenericListener (requests s)),
      Attach WindowCustomEvent (CustomListener (requests s)),
      Attach GlobalCallback (CallbackFn (requests s))] @
     (case flutterObject s of
        Some fo \<Rightarrow> [Attach FlutterObject (FlutterHandler (requests s))] | None \<Rightarrow> []) @
     (case townpass_message_channel s of
        Some ch \<Rightarrow> [Attach TownpassMessageChannel (ChannelHandler (requests s))] | None \<Rightarrow> []) @
     [SetTimeout (Suc (timerCount s)) ms]"
    unfolding request_listen_eq attach_all_trace ch
    by (simp add: mid(1) request_reset_trace cleanup_frame request_reset_frame)
  with mid(2) show ?thesis by blast
qed

lemma request_listen_frame:
  "map_option postMessageFn (flutterObject (request_listen ms s)) =
     map_option postMessageFn (flutterObject s)"
  "map_option postMessageFn (townpass_message_channel (request_listen ms s)) =
     map_option postMessageFn (townpass_message_channel s)"
  "webkitTownPass (request_listen ms s) = webkitTownPass s"
  "reactNativeWebView (request_listen ms s) = reactNativeWebView s"
  "townPass (request_listen ms s) = townPass s"
  "user (request_listen ms s) = VNull"
  "error (request_listen ms s) = None"
  "isLoading (request_listen ms s) = True"
  "Suc (timerCount s) \<in> set (timers (request_listen ms s))"
  by (simp_all add: request_listen_eq attach_all_frame cleanup_frame cleanup_host
        request_reset_frame)

subsection \<open>Probing\<close>

lemma probe_flutter_eq:
  "probe_flutter s = s\<lparr>trace := trace s @
     (case flutterObject s of
        Some fo \<Rightarrow>
          if postMessageFn fo
          then [Send FlutterObject
                  (Stringified (VObj [(''name'', VStr ''userinfo''), (''data'', VNull)]))]
          else []
      | None \<Rightarrow> [])\<rparr>"
  by (simp add: probe_flutter_def emit_def split: option.splits)

lemma probe_channel_eq:
  "probe_channel s = s\<lparr>trace := trace s @
     (case townpass_message_channel s of
        Some ch \<Rightarrow>
          if postMessageFn ch
          then [Send TownpassMessageChannel
                  (Stringified (VObj [(''name'', VStr ''userid''), (''data'', VNull)]))]
          else []
      | None \<Rightarrow> [])\<rparr>"
  by (simp add: probe_channel_def emit_def split: option.splits)

lemma probe_webkit_eq:
  "probe_webkit s = s\<lparr>trace := trace s @
     (case webkitTownPass s of
        Some WebkitAccepts \<Rightarrow> [Send WebkitHandler (Plain (VObj [(''action'', VStr ''getUser'')]))]
      | Some WebkitRejectsObject \<Rightarrow>
          [Send WebkitHandler (Plain (VObj [(''action'', VStr ''getUser'')])),
           Send WebkitHandler (Plain (VStr ''getUser''))]
      | None \<Rightarrow> [])\<rparr>"
  by (simp add: probe_webkit_def emit_def split: option.splits webkit.splits)

lemma probe_react_native_eq:
  "probe_react_native s = s\<lparr>trace := trace s @
     (if reactNativeWebView s
      then [Send ReactNativeWebView (Stringified (VObj [(''type'', VStr ''getUser'')]))]
      else [])\<rparr>"
  by (simp add: probe_react_native_def emit_def)

lemma probe_townpass_eq:
  "probe_townpass s = s\<lparr>trace := trace s @
     (case townPass s of
        Some tp \<Rightarrow>
          if tpPostMessageFn tp
          then [Send TownPassBridge (Stringified (VObj [(''type'', VStr ''getUser'')]))]
          else []
      | None \<Rightarrow> [])\<rparr>"
  by (simp add: probe_townpass_def emit_def split: option.splits)

lemma probes_sent:
  "probe_window (probe_townpass (probe_react_native (probe_webkit (probe_channel
     (probe_flutter s))))) = s\<lparr>trace := trace s @ probes s\<rparr>"
  by (simp add: probe_flutter_eq probe_channel_eq probe_webkit_eq probe_react_native_eq
        probe_townpass_eq probe_window_def emit_def probes_def)

lemma probes_listen_free: "filter is_listen (probes s) = []"
  by (simp add: probes_def split: option.splits webkit.splits)

lemma probes_last:
  "Send WindowBroadcast
     (Stringified (VObj [(''source'', VStr ''web''), (''type'', VStr ''getUser'')]))
   \<in> set (probes s)"
  by (simp add: probes_def)

lemma sync_getUser_trace:
  "\<exists>fin. trace (sync_getUser jp s) =
     trace s @
     (case townPass s of
        Some tp \<Rightarrow> (case tpGetUser tp of NoGetUser \<Rightarrow> [] | _ \<Rightarrow> [Send TownPassGetUser Call])
      | None \<Rightarrow> []) @ fin \<and> quiet fin"
proof (cases "townPass s")
  case None
  then show ?thesis by (simp add: sync_getUser_def quiet_def)
next
  case (Some tp)
  show ?thesis
  proof (cases "tpGetUser tp")
    case NoGetUser
    with Some show ?thesis by (simp add: sync_getUser_def quiet_def)
  next
    case GetUserThrows
    with Some show ?thesis by (simp add: sync_getUser_def quiet_def emit_def)
  next
    case (GetUserReturns res)
    show ?thesis
    proof (cases "truthy res")
      case False
      with Some GetUserReturns show ?thesis by (simp add: sync_getUser_def quiet_def emit_def)
    next
      case True
      obtain fin where
        "trace (handle_then_cleanup jp res (emit (Send TownPassGetUser Call) s)) =
           trace (emit (Send TownPassGetUser Call) s) @ fin" "quiet fin"
        using trace_handle_then_cleanup by blast
      with Some GetUserReturns True show ?thesis
        by (auto simp: sync_getUser_def emit_def)
    qed
  qed
qed

lemma request_probe_trace:
  "\<exists>fin. trace (request_probe jp s) =
     trace s @ probes s @
     (case townPass s of
        Some tp \<Rightarrow> (case tpGetUser tp of NoGetUser \<Rightarrow> [] | _ \<Rightarrow> [Send TownPassGetUser Call])
      | None \<Rightarrow> []) @ fin \<and> quiet fin"
proof -
  have eq: "request_probe jp s = sync_getUser jp (s\<lparr>trace := trace s @ probes s\<rparr>)"
    by (simp add: request_probe_def Let_def probes_sent)
  from sync_getUser_trace [of jp "s\<lparr>trace := trace s @ probes s\<rparr>"]
  show ?thesis unfolding eq by simp
qed

lemma probed_probes: "probed (probes s @
     (case townPass s of
        Some tp \<Rightarrow> (case tpGetUser tp of NoGetUser \<Rightarrow> [] | _ \<Rightarrow> [Send TownPassGetUser Call])
      | None \<Rightarrow> [])) = probe_order s"
  by (simp add: probes_def probe_order_def probed_append
      split: option.splits webkit.splits getUser.splits)

lemma probed_quiet: "quiet evs \<Longrightarrow> probed evs = []"
  by (induction evs rule: probed.induct) (simp_all add: quiet_def)

lemma probe_order_frame:
  "probe_order (request_listen ms s) = probe_order s"
proof -
  have a: "(case flutterObject (request_listen ms s) of
        Some fo \<Rightarrow> if postMessageFn fo then [FlutterObject] else []
      | None \<Rightarrow> []) = (case flutterObject s of
        Some fo \<Rightarrow> if postMessageFn fo then [FlutterObject] else []
      | None \<Rightarrow> [])"
    using request_listen_frame(1) [of ms s]
    by (cases "flutterObject s"; cases "flutterObject (request_listen ms s)") auto
  have b: "(case townpass_message_channel (request_listen ms s) of
        Some fo \<Rightarrow> if postMessageFn fo then [TownpassMessageChannel] else []
      | None \<Rightarrow> []) = (case townpass_message_channel s of
        Some fo \<Rightarrow> if postMessageFn fo then [TownpassMessageChannel] else []
      | None \<Rightarrow> [])"
    using request_listen_frame(2) [of ms s]
    by (cases "townpass_message_channel s"; cases "townpass_message_channel (request_listen ms s)")
       auto
  show ?thesis
    unfolding probe_order_def a b by (simp add: request_listen_frame)
qed

subsection \<open>When the accessor does not answer\<close>

lemma handleIncomingRaw_accepts:
  "snd (handleIncomingRaw jp raw s) = snd (handleIncomingRaw jp raw s')"
  by (simp add: handleIncomingRaw_def split: sum.splits)

lemma accessor_resolves_listen:
  "accessor_resolves jp (request_listen ms s) = accessor_resolves jp s"
  using handleIncomingRaw_accepts [of jp _ "request_listen ms s" s]
  by (simp add: accessor_resolves_def request_listen_frame split: option.splits getUser.splits)

lemma handle_rejected:
  "\<not> snd (handleIncomingRaw jp raw s) \<Longrightarrow> handle_then_cleanup jp raw s = s"
  by (auto simp: handle_then_cleanup_def handleIncomingRaw_def split: sum.splits if_splits)

lemma sync_getUser_unresolved:
  assumes "\<not> accessor_resolves jp s"
  shows "\<exists>t. sync_getUser jp s = s\<lparr>trace := t\<rparr>"
proof (cases "townPass s")
  case None
  then have "sync_getUser jp s = s\<lparr>trace := trace s\<rparr>" by (simp add: sync_getUser_def)
  then show ?thesis by blast
next
  case (Some tp)
  show ?thesis
  proof (cases "tpGetUser tp")
    case NoGetUser
    with Some have "sync_getUser jp s = s\<lparr>trace := trace s\<rparr>" by (simp add: sync_getUser_def)
    then show ?thesis by blast
  next
    case GetUserThrows
    with Some have "sync_getUser jp s = s\<lparr>trace := trace s @ [Send TownPassGetUser Call]\<rparr>"
      by (simp add: sync_getUser_def emit_def)
    then show ?thesis by blast
  next
    case (GetUserReturns res)
    show ?thesis
    proof (cases "truthy res")
      case False
      with Some GetUserReturns
      have "sync_getUser jp s = s\<lparr>trace := trace s @ [Send TownPassGetUser Call]\<rparr>"
        by (simp add: sync_getUser_def emit_def)
      then show ?thesis by blast
    next
      case True
      with assms Some GetUserReturns have "\<not> snd (handleIncomingRaw jp res s)"
        by (simp add: accessor_resolves_def)
      then have "\<not> snd (handleIncomingRaw jp res (emit (Send TownPassGetUser Call) s))"
        using handleIncomingRaw_accepts by blast
      then have "handle_then_cleanup jp res (emit (Send TownPassGetUser Call) s) =
                 emit (Send TownPassGetUser Call) s"
        by (rule handle_rejected)
      with Some GetUserReturns True
      have "sync_getUser jp s = s\<lparr>trace := trace s @ [Send TownPassGetUser Call]\<rparr>"
        by (simp add: sync_getUser_def emit_def)
      then show ?thesis by blast
    qed
  qed
qed

lemma accessor_resolves_trace:
  "accessor_resolves jp (s\<lparr>trace := t\<rparr>) = accessor_resolves jp s"
  using handleIncomingRaw_accepts [of jp _ "s\<lparr>trace := t\<rparr>" s]
  by (simp add: accessor_resolves_def split: option.splits getUser.splits)

lemma request_probe_unresolved:
  assumes "\<not> accessor_resolves jp s"
  shows "\<exists>t. request_probe jp s = s\<lparr>trace := t\<rparr>"
proof -
  have eq: "request_probe jp s = sync_getUser jp (s\<lparr>trace := trace s @ probes s\<rparr>)"
    by (simp add: request_probe_def Let_def probes_sent)
  from assms have "\<not> accessor_resolves jp (s\<lparr>trace := trace s @ probes s\<rparr>)"
    by (simp add: accessor_resolves_trace)
  from sync_getUser_unresolved [OF this] obtain t where
    "sync_getUser jp (s\<lparr>trace := trace s @ probes s\<rparr>) = s\<lparr>trace := trace s @ probes s\<rparr>\<lparr>trace := t\<rparr>"
    by blast
  then have "request_probe jp s = s\<lparr>trace := t\<rparr>" by (simp add: eq)
  then show ?thesis by blast
qed

lemma timer_fires_state:
  assumes "t \<in> set (timers s)"
  shows "user (timer_fires t s) = user s"
    "error (timer_fires t s) = Some ''TownPass authentication timeout''"
    "\<not> isLoading (timer_fires t s)"
  using assms
  by (simp_all add: timer_fires_def cleanup_frame setError_def setIsLoading_def emit_def)

subsection \<open>The state in which the probes are sent\<close>

lemma cleanup_custom: "customListeners (cleanup s) = customListeners s"
  by (simp add: cleanup_def cleanup_timer_def cleanup_message_def cleanup_channel_def
        cleanup_callback_def clearTimeout_def emit_def split: option.splits slot.splits)

lemma attach_all_state:
  "messageListeners (attach_all ms n c) = messageListeners c @ [GenericListener n]"
  "customListeners (attach_all ms n c) = customListeners c @ [CustomListener n]"
  "onTownPassUser (attach_all ms n c) = EngineCallback n"
  "listenerRef (attach_all ms n c) = Some (GenericListener n)"
  "timerRef (attach_all ms n c) = Some (Suc (timerCount c))"
  by (simp_all add: attach_all_def arm_timeout_def attach_channel_def attach_flutter_def
        attach_callback_def attach_window_def setTimeout_def emit_def Let_def
      split: option.splits)

lemma attach_all_flutter:
  "flutterObject c = Some fo \<Longrightarrow>
   FlutterHandler n \<in> set (bridge_handlers (flutterObject (attach_all ms n c)))"
  by (simp add: attach_all_def arm_timeout_def attach_channel_def attach_flutter_def
        attach_callback_def attach_window_def setTimeout_def emit_def Let_def subscribe_def
        bridge_handlers_def
      split: option.splits)

lemma attach_all_channel:
  "townpass_message_channel c = Some ch \<Longrightarrow>
   ChannelHandler n \<in> set (bridge_handlers (townpass_message_channel (attach_all ms n c)))"
  by (simp add: attach_all_def arm_timeout_def attach_channel_def attach_flutter_def
        attach_callback_def attach_window_def setTimeout_def emit_def Let_def subscribe_def
        bridge_handlers_def
      split: option.splits)

lemma request_listen_listening: "listening s (request_listen ms s)"
proof -
  let ?c = "cleanup (request_reset (s\<lparr>requests := Suc (requests s)\<rparr>))"
  have fl: "FlutterHandler (requests s) \<in>
              set (bridge_handlers (flutterObject (attach_all ms (requests s) ?c)))"
    if "flutterObject s = Some fo" for fo
  proof -
    from that have "flutterObject ?c = Some fo"
      by (simp add: cleanup_frame request_reset_frame)
    then show ?thesis by (rule attach_all_flutter)
  qed
  have ch: "ChannelHandler (requests s) \<in>
              set (bridge_handlers (townpass_message_channel (attach_all ms (requests s) ?c)))"
    if "townpass_message_channel s = Some b" for b
  proof -
    from that have "townpass_message_channel ?c \<noteq> None"
      by (simp add: cleanup_channel_present request_reset_frame)
    then obtain b' where "townpass_message_channel ?c = Some b'" by blast
    then show ?thesis by (rule attach_all_channel)
  qed
  show ?thesis
    unfolding listening_def request_listen_eq
    using fl ch
    by (simp add: attach_all_state attach_all_frame cleanup_frame request_reset_frame
          split: option.splits)
qed

lemma listening_trace: "listening s (w\<lparr>trace := t\<rparr>) = listening s w"
  by (simp add: listening_def split: option.splits)

lemma probes_only_send: "filter is_send (probes s) = probes s"
  by (simp add: probes_def split: option.splits webkit.splits)

section \<open>Listening before probing\<close>

text \<open>
  C1. When the listening part of \<^verbatim>\<open>requestTownPassUser\<close> (lines 158-270) is done, the request
  is listening: the \<^verbatim>\<open>message\<close> listener and the \<^verbatim>\<open>townpass:user\<close> listener are registered on the
  window, the callback is in \<^verbatim>\<open>window.__onTownPassUser\<close>, the bridges that the host has hold
  their handlers, and the timer is armed. Up to then nothing has been sent. Every probe is
  sent from that very state: the call is the direct call of the accessor, run in the
  listening state with only the \<^verbatim>\<open>postMessage\<close> probes added to its trace. In the trace the
  effects come in four runs: the reset and the teardown of an earlier request, then only
  attachments and the arming of the timer, then only probes, then whatever a direct answer
  of the accessor causes. Unless the accessor answers, the request is still listening when
  the call returns.
\<close>

theorem listeners_before_probes:
  "listening s (request_listen ms s) \<and>
   (\<exists>sent. requestTownPassUser jp ms s =
             sync_getUser jp ((request_listen ms s)\<lparr>trace := trace (request_listen ms s) @ sent\<rparr>) \<and>
           filter is_send sent = sent) \<and>
   (\<exists>pre att sends fin.
      trace (request_listen ms s) = trace s @ pre @ att \<and>
      trace (requestTownPassUser jp ms s) = trace s @ pre @ att @ sends @ fin \<and>
      filter is_send pre = [] \<and> filter is_listen pre = [] \<and>
      filter is_listen att = att \<and>
      Attach WindowMessage (GenericListener (requests s)) \<in> set att \<and>
      Attach WindowCustomEvent (CustomListener (requests s)) \<in> set att \<and>
      Attach GlobalCallback (CallbackFn (requests s)) \<in> set att \<and>
      (flutterObject s \<noteq> None \<longrightarrow>
         Attach FlutterObject (FlutterHandler (requests s)) \<in> set att) \<and>
      (townpass_message_channel s \<noteq> None \<longrightarrow>
         Attach TownpassMessageChannel (ChannelHandler (requests s)) \<in> set att) \<and>
      SetTimeout (Suc (timerCount s)) ms \<in> set att \<and>
      filter is_send sends = sends \<and>
      Send WindowBroadcast
        (Stringified (VObj [(''source'', VStr ''web''), (''type'', VStr ''getUser'')]))
        \<in> set sends \<and>
      filter is_send fin = [] \<and> filter is_listen fin = []) \<and>
   (\<not> accessor_resolves jp s \<longrightarrow> listening s (requestTownPassUser jp ms s))"
proof (intro conjI impI)
  show "listening s (request_listen ms s)" by (rule request_listen_listening)
next
  let ?z = "request_listen ms s"
  have "requestTownPassUser jp ms s = sync_getUser jp (?z\<lparr>trace := trace ?z @ probes ?z\<rparr>)"
    by (simp add: requestTownPassUser_def request_probe_def Let_def probes_sent)
  with probes_only_send [of ?z]
  show "\<exists>sent. requestTownPassUser jp ms s =
             sync_getUser jp (?z\<lparr>trace := trace ?z @ sent\<rparr>) \<and> filter is_send sent = sent"
    by blast
next
  let ?z = "request_listen ms s"
  let ?call = "case townPass ?z of
        Some tp \<Rightarrow> (case tpGetUser tp of NoGetUser \<Rightarrow> [] | _ \<Rightarrow> [Send TownPassGetUser Call])
      | None \<Rightarrow> []"
  let ?att = "[Attach WindowMessage (GenericListener (requests s)),
      Attach WindowCustomEvent (CustomListener (requests s)),
      Attach GlobalCallback (CallbackFn (requests s))] @
     (case flutterObject s of
        Some fo \<Rightarrow> [Attach FlutterObject (FlutterHandler (requests s))] | None \<Rightarrow> []) @
     (case townpass_message_channel s of
        Some ch \<Rightarrow> [Attach TownpassMessageChannel (ChannelHandler (requests s))] | None \<Rightarrow> []) @
     [SetTimeout (Suc (timerCount s)) ms]"
  obtain mid where mid: "trace ?z =
     trace s @ [StateLoading True, StateError None, StateUser VNull] @ mid @ ?att"
    and qm: "quiet mid"
    using request_listen_trace [of ms s] by auto
  obtain fin where fin: "trace (request_probe jp ?z) = trace ?z @ probes ?z @ ?call @ fin"
    and qf: "quiet fin"
    using request_probe_trace by blast
  define pre where "pre = [StateLoading True, StateError None, StateUser VNull] @ mid"
  define att where "att = ?att"
  define sends where "sends = probes ?z @ ?call"
  have t1: "trace ?z = trace s @ pre @ att"
    by (simp add: mid pre_def att_def)
  have t2: "trace (requestTownPassUser jp ms s) = trace s @ pre @ att @ sends @ fin"
    by (simp add: requestTownPassUser_def fin t1 sends_def)
  have p1: "filter is_send pre = []" "filter is_listen pre = []"
    using qm by (simp_all add: pre_def quiet_def)
  have p2: "filter is_listen att = att"
    by (simp add: att_def split: option.splits)
  have p3: "Attach WindowMessage (GenericListener (requests s)) \<in> set att"
    "Attach WindowCustomEvent (CustomListener (requests s)) \<in> set att"
    "Attach GlobalCallback (CallbackFn (requests s)) \<in> set att"
    "SetTimeout (Suc (timerCount s)) ms \<in> set att"
    by (simp_all add: att_def)
  have p4: "Attach FlutterObject (FlutterHandler (requests s)) \<in> set att"
    if "flutterObject s \<noteq> None"
    using that by (auto simp: att_def)
  have p5: "Attach TownpassMessageChannel (ChannelHandler (requests s)) \<in> set att"
    if "townpass_message_channel s \<noteq> None"
    using that by (auto simp: att_def)
  have p6: "filter is_send sends = sends"
    by (simp add: sends_def probes_only_send split: option.splits getUser.splits)
  have p7: "Send WindowBroadcast
        (Stringified (VObj [(''source'', VStr ''web''), (''type'', VStr ''getUser'')]))
        \<in> set sends"
    using probes_last [of ?z] by (simp add: sends_def)
  have p8: "filter is_send fin = []" "filter is_listen fin = []"
    using qf by (simp_all add: quiet_def)
  from t1 t2 p1 p2 p3 p4 p5 p6 p7 p8
  show "\<exists>pre att sends fin.
      trace (request_listen ms s) = trace s @ pre @ att \<and>
      trace (requestTownPassUser jp ms s) = trace s @ pre @ att @ sends @ fin \<and>
      filter is_send pre = [] \<and> filter is_listen pre = [] \<and>
      filter is_listen att = att \<and>
      Attach WindowMessage (GenericListener (requests s)) \<in> set att \<and>
      Attach WindowCustomEvent (CustomListener (requests s)) \<in> set att \<and>
      Attach GlobalCallback (CallbackFn (requests s)) \<in> set att \<and>
      (flutterObject s \<noteq> None \<longrightarrow>
         Attach FlutterObject (FlutterHandler (requests s)) \<in> set att) \<and>
      (townpass_message_channel s \<noteq> None \<longrightarrow>
         Attach TownpassMessageChannel (ChannelHandler (requests s)) \<in> set att) \<and>
      SetTimeout (Suc (timerCount s)) ms \<in> set att \<and>
      filter is_send sends = sends \<and>
      Send WindowBroadcast
        (Stringified (VObj [(''source'', VStr ''web''), (''type'', VStr ''getUser'')]))
        \<in> set sends \<and>
      filter is_send fin = [] \<and> filter is_listen fin = []"
    by blast
next
  assume un: "\<not> accessor_resolves jp s"
  let ?z = "request_listen ms s"
  from un have "\<not> accessor_resolves jp ?z" by (simp add: accessor_resolves_listen)
  from request_probe_unresolved [OF this] obtain t where
    "requestTownPassUser jp ms s = ?z\<lparr>trace := t\<rparr>"
    unfolding requestTownPassUser_def by blast
  then show "listening s (requestTownPassUser jp ms s)"
    by (simp add: listening_trace request_listen_listening)
qed

text \<open>C1 in a window that offers both bridges: when the call returns, every listener of the
  request is in place and its timer is armed.\<close>

theorem listeners_before_probes_witness:
  "messageListeners (requestTownPassUser sample_json 3000 bridged_host) = [GenericListener 0] \<and>
   customListeners (requestTownPassUser sample_json 3000 bridged_host) = [CustomListener 0] \<and>
   listening bridged_host (request_listen 3000 bridged_host) \<and>
   listening bridged_host (requestTownPassUser sample_json 3000 bridged_host) \<and>
   onTownPassUser (requestTownPassUser sample_json 3000 bridged_host) = EngineCallback 0 \<and>
   FlutterHandler 0 \<in>
     set (bridge_handlers (flutterObject (requestTownPassUser sample_json 3000 bridged_host))) \<and>
   ChannelHandler 0 \<in>
     set (bridge_handlers
            (townpass_message_channel (requestTownPassUser sample_json 3000 bridged_host))) \<and>
   1 \<in> set (timers (requestTownPassUser sample_json 3000 bridged_host))"
proof -
  have a: "\<not> accessor_resolves sample_json bridged_host" by code_simp
  have b: "requests bridged_host = 0" "timerCount bridged_host = 0"
    "flutterObject bridged_host = Some full_bridge"
    "townpass_message_channel bridged_host = Some full_bridge"
    by (simp_all add: bridged_host_def initial_def)
  have c: "messageListeners (requestTownPassUser sample_json 3000 bridged_host) = [GenericListener 0]"
    "customListeners (requestTownPassUser sample_json 3000 bridged_host) = [CustomListener 0]"
    by code_simp+
  from listeners_before_probes [of bridged_host 3000 sample_json] a
  have l: "listening bridged_host (request_listen 3000 bridged_host)"
    "listening bridged_host (requestTownPassUser sample_json 3000 bridged_host)"
    by blast+
  from l(2) have "onTownPassUser (requestTownPassUser sample_json 3000 bridged_host) = EngineCallback 0"
    "FlutterHandler 0 \<in>
       set (bridge_handlers (flutterObject (requestTownPassUser sample_json 3000 bridged_host)))"
    "ChannelHandler 0 \<in>
       set (bridge_handlers
            (townpass_message_channel (requestTownPassUser sample_json 3000 bridged_host)))"
    "1 \<in> set (timers (requestTownPassUser sample_json 3000 bridged_host))"
    by (simp_all add: listening_def b)
  with l c show ?thesis by blast
qed

section \<open>The order of the probes\<close>

text \<open>
  C8 (as amended). A request probes the channels that the host offers in this fixed order:
  the primary bridge with \<^verbatim>\<open>userinfo\<close>, the secondary channel with \<^verbatim>\<open>userid\<close>, the webkit handler,
  the React Native webview, the \<^verbatim>\<open>TownPass\<close> bridge, the window broadcast, and last of all the
  direct call of \<^verbatim>\<open>TownPass.getUser\<close>.
\<close>

theorem probes_in_source_order:
  "probed (trace (requestTownPassUser jp ms s)) = probed (trace s) @ probe_order s"
proof -
  let ?z = "request_listen ms s"
  let ?call = "case townPass ?z of
        Some tp \<Rightarrow> (case tpGetUser tp of NoGetUser \<Rightarrow> [] | _ \<Rightarrow> [Send TownPassGetUser Call])
      | None \<Rightarrow> []"
  obtain mid where mid: "trace ?z =
     trace s @ [StateLoading True, StateError None, StateUser VNull] @ mid @
     [Attach WindowMessage (GenericListener (requests s)),
      Attach WindowCustomEvent (CustomListener (requests s)),
      Attach GlobalCallback (CallbackFn (requests s))] @
     (case flutterObject s of
        Some fo \<Rightarrow> [Attach FlutterObject (FlutterHandler (requests s))] | None \<Rightarrow> []) @
     (case townpass_message_channel s of
        Some ch \<Rightarrow> [Attach TownpassMessageChannel (ChannelHandler (requests s))] | None \<Rightarrow> []) @
     [SetTimeout (Suc (timerCount s)) ms]" and qm: "quiet mid"
    using request_listen_trace by blast
  obtain fin where fin: "trace (request_probe jp ?z) = trace ?z @ (probes ?z @ ?call) @ fin"
    and qf: "quiet fin"
    using request_probe_trace [of jp ?z] by auto
  have a: "probed (trace ?z) = probed (trace s)"
    unfolding mid using probed_quiet [OF qm]
    by (simp add: probed_append split: option.splits)
  have "probed (trace (request_probe jp ?z)) = probed (trace s) @ probe_order ?z"
    unfolding fin using probed_quiet [OF qf] probed_probes [of ?z]
    by (simp only: probed_append a append_Nil2)
  then show ?thesis
    by (simp add: requestTownPassUser_def probe_order_frame)
qed

text \<open>
  C8 as stated fails: where the host offers every mechanism, the direct call of the accessor
  is the last probe of the request, not the first.
\<close>

theorem accessor_probed_last_counterexample:
  "probed (trace (requestTownPassUser sample_json 3000 full_host)) =
     [FlutterObject, TownpassMessageChannel, WebkitHandler, ReactNativeWebView,
      TownPassBridge, WindowBroadcast, TownPassGetUser]"
  by code_simp

section \<open>The reset at the start of a request\<close>

text \<open>
  C10. The first effects of every call of \<^verbatim>\<open>requestTownPassUser\<close> are \<^verbatim>\<open>setIsLoading(true)\<close>,
  \<^verbatim>\<open>setError(null)\<close> and \<^verbatim>\<open>setUser(null)\<close>, before any listener is attached. Unless the direct
  accessor of the host answers during the call, the user is null, the error is null and the
  hook is loading when the call returns, whatever the user was before; and when the timer of
  the request then fires, the user is still null and the error is the timeout.
\<close>

theorem request_resets_state:
  "(\<exists>rest. trace (requestTownPassUser jp ms s) =
            trace s @ [StateLoading True, StateError None, StateUser VNull] @ rest \<and>
          Attach WindowMessage (GenericListener (requests s)) \<in> set rest) \<and>
   (\<not> accessor_resolves jp s \<longrightarrow>
      user (requestTownPassUser jp ms s) = VNull \<and>
      error (requestTownPassUser jp ms s) = None \<and>
      isLoading (requestTownPassUser jp ms s) \<and>
      user (timer_fires (Suc (timerCount s)) (requestTownPassUser jp ms s)) = VNull \<and>
      error (timer_fires (Suc (timerCount s)) (requestTownPassUser jp ms s)) =
        Some ''TownPass authentication timeout'' \<and>
      \<not> isLoading (timer_fires (Suc (timerCount s)) (requestTownPassUser jp ms s)))"
proof (intro conjI impI)
  let ?z = "request_listen ms s"
  obtain mid where mid: "trace ?z =
     trace s @ [StateLoading True, StateError None, StateUser VNull] @ mid @
     [Attach WindowMessage (GenericListener (requests s)),
      Attach WindowCustomEvent (CustomListener (requests s)),
      Attach GlobalCallback (CallbackFn (requests s))] @
     (case flutterObject s of
        Some fo \<Rightarrow> [Attach FlutterObject (FlutterHandler (requests s))] | None \<Rightarrow> []) @
     (case townpass_message_channel s of
        Some ch \<Rightarrow> [Attach TownpassMessageChannel (ChannelHandler (requests s))] | None \<Rightarrow> []) @
     [SetTimeout (Suc (timerCount s)) ms]"
    using request_listen_trace by blast
  obtain post where post: "trace (request_probe jp ?z) = trace ?z @ post"
    using request_probe_trace [of jp ?z] by auto
  define rest where "rest = mid @
     [Attach WindowMessage (GenericListener (requests s)),
      Attach WindowCustomEvent (CustomListener (requests s)),
      Attach GlobalCallback (CallbackFn (requests s))] @
     (case flutterObject s of
        Some fo \<Rightarrow> [Attach FlutterObject (FlutterHandler (requests s))] | None \<Rightarrow> []) @
     (case townpass_message_channel s of
        Some ch \<Rightarrow> [Attach TownpassMessageChannel (ChannelHandler (requests s))] | None \<Rightarrow> []) @
     [SetTimeout (Suc (timerCount s)) ms] @ post"
  have "trace (requestTownPassUser jp ms s) =
          trace s @ [StateLoading True, StateError None, StateUser VNull] @ rest"
    by (simp add: requestTownPassUser_def post mid rest_def)
  moreover have "Attach WindowMessage (GenericListener (requests s)) \<in> set rest"
    by (simp add: rest_def)
  ultimately show "\<exists>rest. trace (requestTownPassUser jp ms s) =
            trace s @ [StateLoading True, StateError None, StateUser VNull] @ rest \<and>
          Attach WindowMessage (GenericListener (requests s)) \<in> set rest"
    by blast
next
  assume un: "\<not> accessor_resolves jp s"
  let ?z = "request_listen ms s"
  from un have "\<not> accessor_resolves jp ?z" by (simp add: accessor_resolves_listen)
  from request_probe_unresolved [OF this] obtain t where
    t: "requestTownPassUser jp ms s = ?z\<lparr>trace := t\<rparr>"
    unfolding requestTownPassUser_def by blast
  have armed: "Suc (timerCount s) \<in> set (timers (?z\<lparr>trace := t\<rparr>))"
    using request_listen_frame(9) [of s ms] by simp
  show "user (requestTownPassUser jp ms s) = VNull"
    by (simp add: t request_listen_frame)
  show "error (requestTownPassUser jp ms s) = None"
    by (simp add: t request_listen_frame)
  show "isLoading (requestTownPassUser jp ms s)"
    by (simp add: t request_listen_frame)
  show "user (timer_fires (Suc (timerCount s)) (requestTownPassUser jp ms s)) = VNull"
    unfolding t timer_fires_state(1) [OF armed] by (simp add: request_listen_frame)
  show "error (timer_fires (Suc (timerCount s)) (requestTownPassUser jp ms s)) =
        Some ''TownPass authentication timeout''"
    unfolding t by (rule timer_fires_state(2) [OF armed])
  show "\<not> isLoading (timer_fires (Suc (timerCount s)) (requestTownPassUser jp ms s))"
    unfolding t by (rule timer_fires_state(3) [OF armed])
qed

text \<open>C10 for a second request, started after the first one was resolved with user u1.\<close>

theorem request_resets_state_witness:
  "user (call_global_callback sample_json (VObj [(''id'', VStr ''u1'')])
           (requestTownPassUser sample_json 3000 initial)) = VObj [(''id'', VStr ''u1'')] \<and>
   user (requestTownPassUser sample_json 3000
           (call_global_callback sample_json (VObj [(''id'', VStr ''u1'')])
              (requestTownPassUser sample_json 3000 initial))) = VNull \<and>
   user (timer_fires 2 (requestTownPassUser sample_json 3000
           (call_global_callback sample_json (VObj [(''id'', VStr ''u1'')])
              (requestTownPassUser sample_json 3000 initial)))) = VNull"
proof -
  let ?s = "call_global_callback sample_json (VObj [(''id'', VStr ''u1'')])
              (requestTownPassUser sample_json 3000 initial)"
  have a: "\<not> accessor_resolves sample_json ?s" by code_simp
  have b: "Suc (timerCount ?s) = 2" by code_simp
  have c: "user ?s = VObj [(''id'', VStr ''u1'')]" by code_simp
  note th = request_resets_state [of sample_json 3000 ?s, unfolded b]
  from th a c show ?thesis by blast
qed

section \<open>Listeners that outlive their request\<close>

text \<open>
  C2 at a failing input. A request is started in a window without bridges and the host
  answers through the global callback with the record of user u1: the request is resolved
  and \<^verbatim>\<open>cleanup\<close> has run. The listener for \<^verbatim>\<open>townpass:user\<close> is still attached, and a later
  event on that channel replaces the resolved user by u2.
\<close>

theorem stale_listener_changes_user:
  "user (call_global_callback sample_json (VObj [(''id'', VStr ''u1'')])
          (requestTownPassUser sample_json 3000 initial)) = VObj [(''id'', VStr ''u1'')] \<and>
   customListeners (call_global_callback sample_json (VObj [(''id'', VStr ''u1'')])
          (requestTownPassUser sample_json 3000 initial)) = [CustomListener 0] \<and>
   user (window_custom_event sample_json (VObj [(''detail'', VObj [(''id'', VStr ''u2'')])])
          (call_global_callback sample_json (VObj [(''id'', VStr ''u1'')])
             (requestTownPassUser sample_json 3000 initial))) = VObj [(''id'', VStr ''u2'')]"
  by code_simp

text \<open>
  C6 at a failing input. Two requests in a row in a window with the primary bridge: the
  second one clears the timer of the first and removes its \<^verbatim>\<open>message\<close> listener, but the
  \<^verbatim>\<open>townpass:user\<close> listener and the bridge handler of the first request stay attached beside
  those of the second.
\<close>

theorem superseded_listeners_remain:
  "customListeners (requestTownPassUser sample_json 3000
      (requestTownPassUser sample_json 3000 flutter_host))
     = [CustomListener 0, CustomListener 1] \<and>
   bridge_handlers (flutterObject (requestTownPassUser sample_json 3000
      (requestTownPassUser sample_json 3000 flutter_host)))
     = [FlutterHandler 0, FlutterHandler 1] \<and>
   messageListeners (requestTownPassUser sample_json 3000
      (requestTownPassUser sample_json 3000 flutter_host)) = [GenericListener 1] \<and>
   timers (requestTownPassUser sample_json 3000
      (requestTownPassUser sample_json 3000 flutter_host)) = [2]"
  by code_simp

section \<open>The global callback slot\<close>

text \<open>
  C3 at a failing input. The host has installed its own function in the slot. Starting a
  request deletes it (the \<^verbatim>\<open>cleanup\<close> of line 165) and installs the hook's callback; after
  the timeout the slot is empty, so the function of the host is lost, and the only effects
  recorded on the slot are the removal and the installation.
\<close>

theorem host_callback_is_lost:
  "onTownPassUser callback_host = HostFunction 7 \<and>
   onTownPassUser (requestTownPassUser sample_json 3000 callback_host) = EngineCallback 0 \<and>
   onTownPassUser (timer_fires 1 (requestTownPassUser sample_json 3000 callback_host)) = Absent \<and>
   trace (requestTownPassUser sample_json 3000 callback_host) =
     [StateLoading True, StateError None, StateUser VNull,
      Detach GlobalCallback (HostHandler 7),
      Attach WindowMessage (GenericListener 0),
      Attach WindowCustomEvent (CustomListener 0),
      Attach GlobalCallback (CallbackFn 0),
      SetTimeout 1 3000,
      Send WindowBroadcast
        (Stringified (VObj [(''source'', VStr ''web''), (''type'', VStr ''getUser'')]))]"
  by code_simp

section \<open>Replies on the two command channels\<close>

text \<open>
  C7 at a failing input. The reply \<^verbatim>\<open>{name: "userid", data: "u2"}\<close>, as an object or as JSON
  text in the \<^verbatim>\<open>data\<close> of the event, resolves the request on the primary bridge with \<^verbatim>\<open>{id: "u2"}\<close>.
  On the secondary channel, which is probed for exactly this reply, it is not recognized:
  the user stays null and the request stays open.
\<close>

theorem userid_reply_on_secondary_channel:
  "user (flutter_message sample_json
          (VObj [(''data'', VStr ''{\"name\":\"userid\",\"data\":\"u2\"}'')])
          (requestTownPassUser sample_json 3000 flutter_host)) = VObj [(''id'', VStr ''u2'')] \<and>
   user (channel_message sample_json
          (VObj [(''data'', VStr ''{\"name\":\"userid\",\"data\":\"u2\"}'')])
          (requestTownPassUser sample_json 3000 channel_host)) = VNull \<and>
   isLoading (channel_message sample_json
          (VObj [(''data'', VStr ''{\"name\":\"userid\",\"data\":\"u2\"}'')])
          (requestTownPassUser sample_json 3000 channel_host)) \<and>
   channel_message sample_json
          (VObj [(''data'', VObj [(''name'', VStr ''userid''), (''data'', VStr ''u2'')])])
          (requestTownPassUser sample_json 3000 channel_host)
     = requestTownPassUser sample_json 3000 channel_host \<and>
   Send TownpassMessageChannel
       (Stringified (VObj [(''name'', VStr ''userid''), (''data'', VNull)]))
     \<in> set (trace (requestTownPassUser sample_json 3000 channel_host))"
  by code_simp

section \<open>One request to the backend\<close>

lemma login_failed_state:
  "error (fst (login_failed msg s)) = Some (case msg of Some m \<Rightarrow> m | None \<Rightarrow> ''Login failed'')"
  "\<not> isAuthenticated (fst (login_failed msg s))"
  "\<not> isLoading (fst (login_failed msg s))"
  "snd (login_failed msg s) = Inl msg"
  "trace (fst (login_failed msg s)) =
     trace s @ [StateAuthenticated False, StateLoading False,
                StateError (Some (case msg of Some m \<Rightarrow> m | None \<Rightarrow> ''Login failed''))]"
  by (simp_all add: login_failed_def setError_def setIsLoading_def setIsAuthenticated_def
        emit_def)

text \<open>
  C9 (as amended). \<^verbatim>\<open>loginWithTownPass\<close> makes exactly one \<^verbatim>\<open>fetch\<close>: a POST to the configured
  endpoint, \<^verbatim>\<open>/api/auth/townpass\<close> by default, with credentials included and the JSON body
  \<^verbatim>\<open>{"townpass_user": identity}\<close>. On a response outside 200-299 the call fails with the message
  \<^verbatim>\<open>Backend auth failed\<close> followed by the status and the text of the body, the same message
  becomes the error of the hook, and \<^verbatim>\<open>isAuthenticated\<close> is false. On a response within 200-299
  whose body is JSON, \<^verbatim>\<open>isAuthenticated\<close> becomes true and the data is returned.
\<close>

theorem loginWithTownPass_exchange:
  "filter is_fetch (trace (fst (loginWithTownPass opt backend u s))) =
     filter is_fetch (trace s) @
     [Fetch \<lparr>url = authEndpoint opt, http_method = ''POST'',
             content_type = ''application/json'', credentials = ''include'',
             body = Stringified (VObj [(''townpass_user'', u)])\<rparr>] \<and>
   authEndpoint None = ''/api/auth/townpass'' \<and>
   (backend \<lparr>url = authEndpoint opt, http_method = ''POST'',
             content_type = ''application/json'', credentials = ''include'',
             body = Stringified (VObj [(''townpass_user'', u)])\<rparr> = Response status txt json \<and>
    \<not> ok status \<longrightarrow>
      snd (loginWithTownPass opt backend u s) =
        Inl (Some (''Backend auth failed '' @ show_nat status @ '' '' @
                   (case txt of Some t \<Rightarrow> t | None \<Rightarrow> []))) \<and>
      error (fst (loginWithTownPass opt backend u s)) =
        Some (''Backend auth failed '' @ show_nat status @ '' '' @
              (case txt of Some t \<Rightarrow> t | None \<Rightarrow> [])) \<and>
      \<not> isAuthenticated (fst (loginWithTownPass opt backend u s))) \<and>
   (backend \<lparr>url = authEndpoint opt, http_method = ''POST'',
             content_type = ''application/json'', credentials = ''include'',
             body = Stringified (VObj [(''townpass_user'', u)])\<rparr> = Response status txt (Inr data) \<and>
    ok status \<longrightarrow>
      snd (loginWithTownPass opt backend u s) = Inr data \<and>
      isAuthenticated (fst (loginWithTownPass opt backend u s)))"
proof -
  let ?call = "\<lparr>url = authEndpoint opt, http_method = ''POST'',
             content_type = ''application/json'', credentials = ''include'',
             body = Stringified (VObj [(''townpass_user'', u)])\<rparr>"
  let ?s2 = "emit (Fetch ?call) (setError None (setIsLoading True s))"
  have t2: "filter is_fetch (trace ?s2) = filter is_fetch (trace s) @ [Fetch ?call]"
    by (simp add: emit_def setError_def setIsLoading_def)
  have once: "filter is_fetch (trace (fst (loginWithTownPass opt backend u s))) =
     filter is_fetch (trace s) @ [Fetch ?call]"
  proof (cases "backend ?call")
    case (Rejects msg)
    then have "fst (loginWithTownPass opt backend u s) = fst (login_failed msg ?s2)"
      by (simp add: loginWithTownPass_def Let_def)
    then show ?thesis by (simp add: login_failed_state(5) t2)
  next
    case (Response status' txt' json')
    show ?thesis
    proof (cases "ok status'")
      case False
      with Response obtain m where
        "fst (loginWithTownPass opt backend u s) = fst (login_failed m ?s2)"
        by (simp add: loginWithTownPass_def Let_def)
      then show ?thesis by (simp add: login_failed_state(5) t2)
    next
      case True
      show ?thesis
      proof (cases json')
        case (Inl msg)
        with Response True
        have "fst (loginWithTownPass opt backend u s) = fst (login_failed msg ?s2)"
          by (simp add: loginWithTownPass_def Let_def)
        then show ?thesis by (simp add: login_failed_state(5) t2)
      next
        case (Inr d)
        with Response True
        have "fst (loginWithTownPass opt backend u s) =
                setIsLoading False (setIsAuthenticated True ?s2)"
          by (simp add: loginWithTownPass_def Let_def)
        then show ?thesis
          using t2 by (simp add: setIsLoading_def setIsAuthenticated_def emit_def)
      qed
    qed
  qed
  have refused: "snd (loginWithTownPass opt backend u s) =
        Inl (Some (''Backend auth failed '' @ show_nat status @ '' '' @
                   (case txt of Some t \<Rightarrow> t | None \<Rightarrow> []))) \<and>
      error (fst (loginWithTownPass opt backend u s)) =
        Some (''Backend auth failed '' @ show_nat status @ '' '' @
              (case txt of Some t \<Rightarrow> t | None \<Rightarrow> [])) \<and>
      \<not> isAuthenticated (fst (loginWithTownPass opt backend u s))"
    if "backend ?call = Response status txt json" "\<not> ok status"
  proof -
    from that have "loginWithTownPass opt backend u s =
       login_failed (Some (''Backend auth failed '' @ show_nat status @ '' '' @
                   (case txt of Some t \<Rightarrow> t | None \<Rightarrow> []))) ?s2"
      by (simp add: loginWithTownPass_def Let_def)
    then show ?thesis by (simp add: login_failed_state)
  qed
  have accepted: "snd (loginWithTownPass opt backend u s) = Inr data \<and>
      isAuthenticated (fst (loginWithTownPass opt backend u s))"
    if "backend ?call = Response status txt (Inr data)" "ok status"
    using that
    by (simp add: loginWithTownPass_def Let_def setIsLoading_def setIsAuthenticated_def emit_def)
  have dflt: "authEndpoint None = ''/api/auth/townpass''"
    by (simp add: authEndpoint_def)
  from once dflt refused accepted show ?thesis by blast
qed

text \<open>C9 against a backend that answers 401 and against one that answers 200 with JSON.\<close>

theorem loginWithTownPass_exchange_witness:
  "snd (loginWithTownPass None unauthorized_backend (VObj [(''id'', VStr ''u1'')]) initial) =
     Inl (Some ''Backend auth failed 401 Unauthorized'') \<and>
   error (fst (loginWithTownPass None unauthorized_backend (VObj [(''id'', VStr ''u1'')]) initial)) =
     Some ''Backend auth failed 401 Unauthorized'' \<and>
   \<not> isAuthenticated
       (fst (loginWithTownPass None unauthorized_backend (VObj [(''id'', VStr ''u1'')]) initial)) \<and>
   isAuthenticated
       (fst (loginWithTownPass None json_backend (VObj [(''id'', VStr ''u1'')]) initial))"
proof -
  have a: "unauthorized_backend c = Response 401 (Some ''Unauthorized'') (Inl (Some ''Unexpected token U''))"
    for c by (simp add: unauthorized_backend_def)
  have b: "\<not> ok 401" by (simp add: ok_def)
  have c: "json_backend c = Response 200 (Some ''{\"success\":true}'') (Inr (VObj [(''success'', VBool True)]))"
    for c by (simp add: json_backend_def)
  have d: "ok 200" by (simp add: ok_def)
  have e: "''Backend auth failed '' @ show_nat 401 @ '' '' @ (case Some ''Unauthorized'' of Some t \<Rightarrow> t | None \<Rightarrow> [])
           = ''Backend auth failed 401 Unauthorized''"
    by code_simp
  note r = loginWithTownPass_exchange [of None unauthorized_backend "VObj [(''id'', VStr ''u1'')]"
      initial 401 "Some ''Unauthorized''" "Inl (Some ''Unexpected token U'')", unfolded e]
  note g = loginWithTownPass_exchange [of None json_backend "VObj [(''id'', VStr ''u1'')]"
      initial 200 "Some ''{\"success\":true}''" _ "VObj [(''success'', VBool True)]"]
  from r a b g c d show ?thesis by blast
qed

text \<open>
  C9 as stated fails in its last part: a response with status 200 whose body is not JSON
  makes \<^verbatim>\<open>res.json()\<close> throw, and the \<^verbatim>\<open>catch\<close> block sets \<^verbatim>\<open>isAuthenticated\<close> to false.
\<close>

theorem login_2xx_not_json_counterexample:
  "\<not> isAuthenticated
       (fst (loginWithTownPass None text_backend (VObj [(''id'', VStr ''u1'')]) initial)) \<and>
   snd (loginWithTownPass None text_backend (VObj [(''id'', VStr ''u1'')]) initial) =
     Inl (Some ''Unexpected token O'')"
  by code_simp

end
